theory Spec2Isabelle
  imports Main
begin

section \<open>Parsed HTML pages\<close>

text \<open>
  \<^verbatim>\<open>rss_to_kindle.py\<close> hands the body of an HTTP response to
  \<^verbatim>\<open>BeautifulSoup(response.content, 'html.parser')\<close> and works on the tree
  that comes back. The tree is the input of the model: a page is the list of
  top-level nodes of the soup object. An element carries its tag name, the
  values of its multi-valued \<^verbatim>\<open>class\<close> attribute and its children. A
  \<open>Comment\<close> stands for every string node that \<^verbatim>\<open>get_text\<close> leaves out
  (comments, declarations, processing instructions). Characters are code
  points below 256.
\<close>

datatype node =
    Text string
  | Comment string
  | Element string "string list" "node list"

type_synonym soup = "node list"

text \<open>\<^verbatim>\<open>tag.descendants\<close>: every node below a tag, in document order.\<close>

fun descendants :: "node \<Rightarrow> node list"
  and descendants_of :: "node list \<Rightarrow> node list" where
  "descendants (Text s) = []"
| "descendants (Comment s) = []"
| "descendants (Element name cls ch) = descendants_of ch"
| "descendants_of [] = []"
| "descendants_of (n # ns) = n # descendants n @ descendants_of ns"

text \<open>\<^verbatim>\<open>find('article')\<close> matches on the tag name.\<close>

fun is_tag :: "string \<Rightarrow> node \<Rightarrow> bool" where
  "is_tag t (Element name cls ch) = (name = t)"
| "is_tag t (Text s) = False"
| "is_tag t (Comment s) = False"

text \<open>
  \<^verbatim>\<open>find('div', class_='post-body')\<close> and
  \<^verbatim>\<open>find_all("div", {'class':'post-labels'})\<close> match an element of that
  name one of whose classes is the given one.
\<close>

fun has_class :: "string \<Rightarrow> string \<Rightarrow> node \<Rightarrow> bool" where
  "has_class t c (Element name cls ch) = (name = t \<and> c \<in> set cls)"
| "has_class t c (Text s) = False"
| "has_class t c (Comment s) = False"

text \<open>\<^verbatim>\<open>soup.find(...)\<close>: the first match among the descendants, or \<open>None\<close>.\<close>

definition soup_find :: "(node \<Rightarrow> bool) \<Rightarrow> soup \<Rightarrow> node option" where
  "soup_find P page = List.find P (descendants_of page)"

text \<open>
  \<^verbatim>\<open>for div in body.find_all(...): div.decompose()\<close> takes every matching
  descendant out of the tree, with all that is below it. The tag the search
  starts from is not among its own descendants, so it stays.
\<close>

fun decompose_all :: "(node \<Rightarrow> bool) \<Rightarrow> node list \<Rightarrow> node list"
  and decompose_below :: "(node \<Rightarrow> bool) \<Rightarrow> node \<Rightarrow> node" where
  "decompose_all P [] = []"
| "decompose_all P (n # ns) =
     (if P n then decompose_all P ns else decompose_below P n # decompose_all P ns)"
| "decompose_below P (Text s) = Text s"
| "decompose_below P (Comment s) = Comment s"
| "decompose_below P (Element name cls ch) = Element name cls (decompose_all P ch)"

text \<open>The text nodes below a tag, in document order.\<close>

fun strings :: "node \<Rightarrow> string list"
  and strings_of :: "node list \<Rightarrow> string list" where
  "strings (Text s) = [s]"
| "strings (Comment s) = []"
| "strings (Element name cls ch) = strings_of ch"
| "strings_of [] = []"
| "strings_of (n # ns) = strings n @ strings_of ns"

text \<open>
  \<^verbatim>\<open>str.strip()\<close> removes leading and trailing whitespace; for code points
  below 256 Python's whitespace is the set below.
\<close>

definition py_isspace :: "char \<Rightarrow> bool" where
  "py_isspace c = (of_char c \<in> {9, 10, 11, 12, 13, 28, 29, 30, 31, 32, 133, 160 :: nat})"

definition py_strip :: "string \<Rightarrow> string" where
  "py_strip s = rev (dropWhile py_isspace (rev (dropWhile py_isspace s)))"

text \<open>\<^verbatim>\<open>sep.join(parts)\<close>.\<close>

fun join :: "string \<Rightarrow> string list \<Rightarrow> string" where
  "join sep [] = []"
| "join sep [x] = x"
| "join sep (x # y # ys) = x @ sep @ join sep (y # ys)"

text \<open>
  \<^verbatim>\<open>tag.get_text(separator=sep, strip=True)\<close>: every text node is stripped, the
  ones that are empty afterwards are skipped, the rest is joined.
\<close>

definition stripped_strings :: "node \<Rightarrow> string list" where
  "stripped_strings n = filter (\<lambda>s. s \<noteq> []) (map py_strip (strings n))"

definition get_text :: "string \<Rightarrow> node \<Rightarrow> string" where
  "get_text sep n = join sep (stripped_strings n)"

section \<open>Exceptions and the exit status\<close>

text \<open>
  Exceptions, each with the text \<^verbatim>\<open>str(e)\<close> gives. \<open>SystemExit\<close> carries the
  status it asks the interpreter to exit with.
\<close>

datatype exn =
    AttributeError string
  | TypeError string
  | ValueError string
  | OverflowError string
  | FileNotFoundError string
  | SMTPException string
  | IOError string
  | ParserRejectedMarkup string
  | AssertionError string
  | SystemExit int

fun str_exn :: "exn \<Rightarrow> string" where
  "str_exn (AttributeError m) = m"
| "str_exn (TypeError m) = m"
| "str_exn (ValueError m) = m"
| "str_exn (OverflowError m) = m"
| "str_exn (FileNotFoundError m) = m"
| "str_exn (SMTPException m) = m"
| "str_exn (IOError m) = m"
| "str_exn (ParserRejectedMarkup m) = m"
| "str_exn (AssertionError m) = m"
| "str_exn (SystemExit n) = []"


section \<open>Article extraction (\<^verbatim>\<open>rss_to_kindle.py\<close>)\<close>

text \<open>
  The source writes the separator as \<^verbatim>\<open>'\\n'\<close>: in Python that is the two
  characters backslash and \<open>n\<close>, not a line feed.
\<close>

definition backslash_n :: string where
  "backslash_n = [CHR 0x5C, CHR ''n'']"

definition line_feed :: string where
  "line_feed = [CHR 0x0A]"

text \<open>
  What the \<^verbatim>\<open>try\<close> block of \<^verbatim>\<open>extract_article_content\<close> meets up to the
  parsed page. \<^verbatim>\<open>requests.get(url)\<close> or \<^verbatim>\<open>raise_for_status()\<close> raise a
  \<^verbatim>\<open>RequestException\<close>, with its message; or the response is there and the
  block raises an exception of another class, which the \<^verbatim>\<open>except\<close> clause does
  not catch (\<^verbatim>\<open>BeautifulSoup\<close> on markup that \<^verbatim>\<open>html.parser\<close> rejects); or
  the page is parsed.
\<close>

datatype http_result =
    RequestException string
  | Raised exn
  | Response soup

type_synonym http = "string \<Rightarrow> http_result"

text \<open>Python's \<^verbatim>\<open>a or b\<close> on values that are a tag (always true) or \<open>None\<close>.\<close>

definition or_else :: "'a option \<Rightarrow> 'a option \<Rightarrow> 'a option" where
  "or_else a b = (case a of Some x \<Rightarrow> Some x | None \<Rightarrow> b)"

definition could_not_extract :: string where
  "could_not_extract = ''Could not extract article content.''"

definition extract_from_soup :: "soup \<Rightarrow> string" where
  "extract_from_soup page =
     (case soup_find (has_class ''div'' ''post-body'') page of
        Some article_body \<Rightarrow>
          get_text backslash_n (decompose_below (has_class ''div'' ''post-labels'') article_body)
      | None \<Rightarrow>
          (case or_else (soup_find (is_tag ''article'') page)
                  (or_else (soup_find (has_class ''div'' ''content'') page)
                           (soup_find (has_class ''div'' ''post'') page)) of
             Some article_body \<Rightarrow> get_text backslash_n article_body
           | None \<Rightarrow> could_not_extract))"

definition extract_article_content :: "http \<Rightarrow> string \<Rightarrow> exn + string" where
  "extract_article_content get article_url =
     (case get article_url of
        RequestException e \<Rightarrow> Inr (''Error fetching article: '' @ e)
      | Raised e \<Rightarrow> Inl e
      | Response page \<Rightarrow> Inr (extract_from_soup page))"

section \<open>Python values the scripts compute with\<close>

text \<open>
  \<^verbatim>\<open>xs[:n]\<close>: the first \<open>n\<close> elements for \<open>n \<ge> 0\<close>; for a negative \<open>n\<close>
  Python counts from the end and leaves out the last \<open>-n\<close> elements.
\<close>

definition slice_to :: "int \<Rightarrow> 'a list \<Rightarrow> 'a list" where
  "slice_to n xs = (if 0 \<le> n then take (nat n) xs else take (length xs - nat (- n)) xs)"

text \<open>
  \<^verbatim>\<open>s.replace(old, new)\<close>: the occurrences of \<open>old\<close> are replaced from left to
  right, without overlap; an empty \<open>old\<close> matches before every character and at
  the end.
\<close>

fun replace_loop :: "string \<Rightarrow> string \<Rightarrow> string \<Rightarrow> string" where
  "replace_loop old new [] = []"
| "replace_loop old new (c # cs) =
     (if take (length old) (c # cs) = old
      then new @ replace_loop old new (drop (length old - 1) cs)
      else c # replace_loop old new cs)"

definition replace :: "string \<Rightarrow> string \<Rightarrow> string \<Rightarrow> string" where
  "replace old new s =
     (if old = [] then new @ concat (map (\<lambda>c. c # new) s) else replace_loop old new s)"

text \<open>\<^verbatim>\<open>str(n)\<close> for a list index.\<close>

definition digit_char :: "nat \<Rightarrow> char" where
  "digit_char d = char_of (48 + d)"

fun str_nat :: "nat \<Rightarrow> string" where
  "str_nat n = (if n < 10 then [digit_char n] else str_nat (n div 10) @ [digit_char (n mod 10)])"

declare str_nat.simps [simp del]

text \<open>
  The truth value of an optional string (\<^verbatim>\<open>if args.sender_email\<close>,
  \<^verbatim>\<open>article.get('content')\<close>): \<open>None\<close> and the empty string are false.
\<close>

definition truthy :: "string option \<Rightarrow> bool" where
  "truthy v = (case v of None \<Rightarrow> False | Some s \<Rightarrow> s \<noteq> [])"

section \<open>Feeds\<close>

text \<open>
  An entry of \<^verbatim>\<open>feedparser.parse(url).entries\<close>. Reading an attribute that the
  feed did not supply raises \<^verbatim>\<open>AttributeError\<close>, so \<open>title\<close> and \<open>link\<close> are
  optional. A date is a naive \<^verbatim>\<open>datetime\<close>, counted in microseconds since
  0001-01-01 00:00; \<open>published\<close> is what
  \<^verbatim>\<open>datetime(*entry.published_parsed[:6])\<close> evaluates to: the date, or the
  exception it raises (attribute missing, \<open>None\<close>, a field out of range).
\<close>

record entry =
  title :: "string option"
  link :: "string option"
  published :: "exn + int"

definition no_attribute :: "string \<Rightarrow> exn" where
  "no_attribute name =
     AttributeError (''object has no attribute '' @ [CHR 0x27] @ name @ [CHR 0x27])"

section \<open>The world a run acts on\<close>

text \<open>
  A file holds the document that was written to it: the HTML that
  \<^verbatim>\<open>pdfkit\<close> rendered, or the book that \<^verbatim>\<open>ebooklib\<close> wrote.
\<close>

record epub_html =
  chapter_title :: string
  file_name :: string
  lang :: string
  chapter_content :: string

record book =
  book_identifier :: string
  book_title :: string
  book_language :: string
  book_author :: string
  items :: "(string + epub_html) list"
  toc :: "epub_html list"
  spine :: "(string + epub_html) list"

datatype document = Pdf string | Epub book

text \<open>
  One run of the SMTP code: relay, login, envelope, the attached file, and
  whether the message went out.
\<close>

record session =
  smtp_host :: string
  smtp_port :: nat
  smtp_login :: "string \<times> string"
  mail_from :: string
  mail_to :: string
  mail_subject :: string
  attachment_name :: string
  attachment :: document
  delivered :: bool

record world =
  stdout :: "string list"
  files :: "string \<rightharpoonup> document"
  sessions :: "session list"

definition print :: "string \<Rightarrow> world \<Rightarrow> world" where
  "print line w = w\<lparr>stdout := stdout w @ [line]\<rparr>"

text \<open>
  What a run cannot decide: the feeds, the web, the clock and its formatting,
  whether the renderers can write (\<open>Some e\<close>: they raise \<open>e\<close>), and whether the
  relay accepts the session (\<open>Some e\<close>: \<open>e\<close> is raised somewhere between
  connecting and \<^verbatim>\<open>quit()\<close>). A renderer that raises leaves the files as they
  were.
\<close>

record env =
  feedparser_parse :: "string \<Rightarrow> entry list"
  requests_get :: http
  newspaper :: "string \<Rightarrow> exn + string \<times> string list"
  now :: int
  strftime :: "int \<Rightarrow> string \<Rightarrow> string"
  pdfkit_error :: "string \<Rightarrow> string \<Rightarrow> string option"
  write_epub_error :: "string \<Rightarrow> exn option"
  smtp_error :: "exn option"

text \<open>\<^verbatim>\<open>os.path.basename\<close>: what follows the last slash.\<close>

definition basename :: "string \<Rightarrow> string" where
  "basename path = rev (takeWhile (\<lambda>c. c \<noteq> CHR ''/'') (rev path))"

section \<open>\<^verbatim>\<open>RSS_script.py\<close>: feeds to an EPUB\<close>

record feed_source =
  source_name :: string
  source_url :: string

record smtp_config =
  cfg_host :: string
  cfg_port :: nat
  cfg_username :: string
  cfg_password :: string

record config =
  cfg_feeds :: "feed_source list"
  cfg_kindle_email :: string
  cfg_smtp :: smtp_config
  cfg_max_articles_per_feed :: int
  cfg_days_old :: int

text \<open>
  The dictionary \<^verbatim>\<open>fetch_articles\<close> builds for an entry; \<^verbatim>\<open>extract_content\<close>
  adds \<open>content\<close> and \<open>authors\<close> to it when it succeeds.
\<close>

record article =
  art_title :: string
  art_url :: string
  art_feed_name :: string
  art_date :: int
  art_content :: "string option"
  art_authors :: "string list option"

text \<open>
  \<^verbatim>\<open>datetime.now() - timedelta(days=days_old)\<close>: both the construction of the
  interval and the subtraction raise \<^verbatim>\<open>OverflowError\<close> out of range. The
  last instant a \<^verbatim>\<open>datetime\<close> can hold is 9999-12-31 23:59:59.999999.
\<close>

definition microseconds_per_day :: int where
  "microseconds_per_day = 86400000000"

definition datetime_max :: int where
  "datetime_max = 3652059 * microseconds_per_day - 1"

definition timedelta_days :: "int \<Rightarrow> exn + int" where
  "timedelta_days days =
     (if \<bar>days\<bar> \<le> 999999999 then Inr (days * microseconds_per_day)
      else Inl (OverflowError ''days; must have magnitude <= 999999999''))"

definition datetime_sub :: "int \<Rightarrow> int \<Rightarrow> exn + int" where
  "datetime_sub t delta =
     (if 0 \<le> t - delta \<and> t - delta \<le> datetime_max then Inr (t - delta)
      else Inl (OverflowError ''date value out of range''))"

definition cutoff :: "int \<Rightarrow> int \<Rightarrow> exn + int" where
  "cutoff t days_old =
     (case timedelta_days days_old of
        Inl e \<Rightarrow> Inl e
      | Inr delta \<Rightarrow> datetime_sub t delta)"

definition error_parsing_entry :: "exn \<Rightarrow> string" where
  "error_parsing_entry e = ''Error parsing entry: '' @ str_exn e"

text \<open>
  The body of the inner loop: the \<^verbatim>\<open>try\<close> block with its handler. The date is
  read first; title and link are read only for an entry that passes the age
  test.
\<close>

definition fetch_entry ::
  "string \<Rightarrow> int \<Rightarrow> entry \<Rightarrow> article list \<times> world \<Rightarrow> article list \<times> world" where
  "fetch_entry fname cutoff_date e st =
     (case st of (articles, w) \<Rightarrow>
        (case published e of
           Inl ex \<Rightarrow> (articles, print (error_parsing_entry ex) w)
         | Inr pub_date \<Rightarrow>
             if pub_date \<ge> cutoff_date then
               (case title e of
                  None \<Rightarrow> (articles, print (error_parsing_entry (no_attribute ''title'')) w)
                | Some t \<Rightarrow>
                    (case link e of
                       None \<Rightarrow> (articles, print (error_parsing_entry (no_attribute ''link'')) w)
                     | Some l \<Rightarrow>
                         (articles @
                            [\<lparr>art_title = t, art_url = l, art_feed_name = fname,
                              art_date = pub_date, art_content = None,
                              art_authors = None\<rparr>], w)))
             else (articles, w)))"

fun fetch_entries ::
  "string \<Rightarrow> int \<Rightarrow> entry list \<Rightarrow> article list \<times> world \<Rightarrow> article list \<times> world" where
  "fetch_entries fname cutoff_date [] st = st"
| "fetch_entries fname cutoff_date (e # es) st =
     fetch_entries fname cutoff_date es (fetch_entry fname cutoff_date e st)"

fun fetch_feeds ::
  "env \<Rightarrow> int \<Rightarrow> int \<Rightarrow> feed_source list \<Rightarrow> article list \<times> world \<Rightarrow> article list \<times> world" where
  "fetch_feeds E max_articles cutoff_date [] st = st"
| "fetch_feeds E max_articles cutoff_date (f # fs) st =
     (case st of (articles, w) \<Rightarrow>
        fetch_feeds E max_articles cutoff_date fs
          (fetch_entries (source_name f) cutoff_date
             (slice_to max_articles (feedparser_parse E (source_url f)))
             (articles, print (''Fetching '' @ source_name f @ ''...'') w)))"

definition fetch_articles ::
  "env \<Rightarrow> feed_source list \<Rightarrow> int \<Rightarrow> int \<Rightarrow> world \<Rightarrow> exn + article list \<times> world" where
  "fetch_articles E feeds max_articles days_old w =
     (case cutoff (now E) days_old of
        Inl e \<Rightarrow> Inl e
      | Inr cutoff_date \<Rightarrow> Inr (fetch_feeds E max_articles cutoff_date feeds ([], w)))"



text \<open>
  The chapter of an article: the f-string of the source, line feeds and
  indentation included.
\<close>

definition indent :: string where
  "indent = line_feed @ replicate 16 CHR '' ''"

definition content_html :: "env \<Rightarrow> article \<Rightarrow> string \<Rightarrow> string" where
  "content_html E a content =
     indent @ ''<h1>'' @ art_title a @ ''</h1>'' @
     indent @ ''<p><em>Source: '' @ art_feed_name a @ ''</em></p>'' @
     indent @ ''<p><em>Date: '' @ strftime E (art_date a) ''%Y-%m-%d %H:%M'' @ ''</em></p>'' @
     indent @ ''<hr/>'' @
     indent @ ''<div>'' @ replace line_feed ''</p><p>'' content @ ''</div>'' @
     line_feed @ replicate 12 CHR '' ''"

definition make_chapter :: "env \<Rightarrow> nat \<Rightarrow> article \<Rightarrow> string \<Rightarrow> epub_html" where
  "make_chapter E idx a content =
     \<lparr>chapter_title = art_title a,
      file_name = ''article_'' @ str_nat idx @ ''.xhtml'',
      lang = ''en'',
      chapter_content = content_html E a content\<rparr>"

text \<open>
  The loop over \<^verbatim>\<open>enumerate(articles)\<close>. The guard
  \<^verbatim>\<open>if article and article.get('content')\<close> also lets a \<open>None\<close> in the list
  pass by.
\<close>

fun create_chapters ::
  "env \<Rightarrow> (nat \<times> article option) list \<Rightarrow> epub_html list \<Rightarrow> epub_html list" where
  "create_chapters E [] chapters = chapters"
| "create_chapters E ((idx, None) # rest) chapters = create_chapters E rest chapters"
| "create_chapters E ((idx, Some a) # rest) chapters =
     (if truthy (art_content a)
      then (case art_content a of
              Some content \<Rightarrow> create_chapters E rest (chapters @ [make_chapter E idx a content])
            | None \<Rightarrow> create_chapters E rest chapters)
      else create_chapters E rest chapters)"

definition make_book :: "env \<Rightarrow> article option list \<Rightarrow> book" where
  "make_book E articles =
     (let chs = create_chapters E (enumerate 0 articles) []
      in \<lparr>book_identifier = ''rss_digest_'' @ strftime E (now E) ''%Y%m%d'',
          book_title = ''Daily Digest - '' @ strftime E (now E) ''%Y-%m-%d'',
          book_language = ''en'',
          book_author = ''RSS Aggregator'',
          items = map Inr chs @ [Inl ''EpubNcx'', Inl ''EpubNav''],
          toc = chs,
          spine = Inl ''nav'' # map Inr chs\<rparr>)"

definition create_epub ::
  "env \<Rightarrow> article option list \<Rightarrow> string \<Rightarrow> world \<Rightarrow> exn option \<times> world" where
  "create_epub E articles output_file w =
     (case write_epub_error E output_file of
        Some e \<Rightarrow> (Some e, w)
      | None \<Rightarrow>
          (None, print (''EPUB created: '' @ output_file)
                   (w\<lparr>files := (files w)(output_file \<mapsto> Epub (make_book E articles))\<rparr>)))"

text \<open>
  \<^verbatim>\<open>open(epub_file, 'rb')\<close> needs the file to exist; the \<^verbatim>\<open>try\<close> around the
  SMTP calls catches every exception and prints it.
\<close>

definition send_to_kindle :: "env \<Rightarrow> string \<Rightarrow> config \<Rightarrow> world \<Rightarrow> exn option \<times> world" where
  "send_to_kindle E epub_file cfg w =
     (case files w epub_file of
        None \<Rightarrow> (Some (FileNotFoundError epub_file), w)
      | Some doc \<Rightarrow>
          (let w' = w\<lparr>sessions := sessions w @
                      [\<lparr>smtp_host = cfg_host (cfg_smtp cfg),
                        smtp_port = cfg_port (cfg_smtp cfg),
                        smtp_login = (cfg_username (cfg_smtp cfg), cfg_password (cfg_smtp cfg)),
                        mail_from = cfg_username (cfg_smtp cfg),
                        mail_to = cfg_kindle_email cfg,
                        mail_subject = ''Daily Digest - '' @ strftime E (now E) ''%Y-%m-%d'',
                        attachment_name = basename epub_file,
                        attachment = doc,
                        delivered = (smtp_error E = None)\<rparr>]\<rparr>
           in case smtp_error E of
                None \<Rightarrow> (None, print (''Email sent to '' @ cfg_kindle_email cfg) w')
              | Some e \<Rightarrow> (None, print (''Error sending email: '' @ str_exn e) w')))"


section \<open>\<^verbatim>\<open>rss_to_kindle.py\<close>: a feed to a PDF\<close>

text \<open>
  The dictionaries of this script have two keys each, so they are pairs here:
  (title, link) after parsing the feed, (title, content) after extraction.
  \<^verbatim>\<open>parse_rss_feed\<close> reads \<^verbatim>\<open>entry.title\<close> and \<^verbatim>\<open>entry.link\<close> outside any
  \<^verbatim>\<open>try\<close>.
\<close>

fun parse_entries ::
  "entry list \<Rightarrow> (string \<times> string) list \<Rightarrow> exn + (string \<times> string) list" where
  "parse_entries [] articles = Inr articles"
| "parse_entries (e # es) articles =
     (case title e of
        None \<Rightarrow> Inl (no_attribute ''title'')
      | Some t \<Rightarrow>
          (case link e of
             None \<Rightarrow> Inl (no_attribute ''link'')
           | Some l \<Rightarrow> parse_entries es (articles @ [(t, l)])))"

definition parse_rss_feed :: "env \<Rightarrow> string \<Rightarrow> exn + (string \<times> string) list" where
  "parse_rss_feed E feed_url = parse_entries (feedparser_parse E feed_url) []"

text \<open>
  The loop of \<^verbatim>\<open>main\<close>: every article is announced, fetched, and appended
  with whatever \<^verbatim>\<open>extract_article_content\<close> returned, in which the separator
  is replaced by a line break tag. An exception that leaves
  \<^verbatim>\<open>extract_article_content\<close> leaves the loop.
\<close>

fun process_articles ::
  "http \<Rightarrow> (string \<times> string) list \<Rightarrow> (string \<times> string) list \<times> world
     \<Rightarrow> exn option \<times> (string \<times> string) list \<times> world" where
  "process_articles get [] st = (None, st)"
| "process_articles get ((t, l) # rest) st =
     (case st of (articles_with_content, w) \<Rightarrow>
        (case extract_article_content get l of
           Inl e \<Rightarrow> (Some e, articles_with_content, print (''Processing: '' @ t) w)
         | Inr content \<Rightarrow>
             process_articles get rest
               (articles_with_content @ [(t, replace backslash_n ''<br>'' content)],
                print (''Processing: '' @ t) w)))"

fun html_loop :: "(string \<times> string) list \<Rightarrow> string \<Rightarrow> string" where
  "html_loop [] html = html"
| "html_loop ((t, content) # rest) html =
     html_loop rest (html @ ''<h1>'' @ t @ ''</h1>'' @ ''<div>'' @ content @ ''</div>'' @ ''<hr>'')"

definition render_html :: "(string \<times> string) list \<Rightarrow> string" where
  "render_html articles =
     html_loop articles
       (''<html><head><meta charset='' @ [CHR 0x27] @ ''utf-8'' @ [CHR 0x27] @ ''></head><body>'')
     @ ''</body></html>''"

definition convert_to_pdf :: "env \<Rightarrow> (string \<times> string) list \<Rightarrow> string \<Rightarrow> world \<Rightarrow> world" where
  "convert_to_pdf E articles output_filename w =
     (case pdfkit_error E (render_html articles) output_filename of
        None \<Rightarrow>
          print (''Successfully created '' @ output_filename)
            (w\<lparr>files := (files w)(output_filename \<mapsto> Pdf (render_html articles))\<rparr>)
      | Some e \<Rightarrow> print (''Error creating PDF: '' @ e) w)"

text \<open>
  \<^verbatim>\<open>open(attachment_path, "rb")\<close> is outside the \<^verbatim>\<open>try\<close>; the SMTP calls are
  inside, and every exception they raise is caught and printed.
\<close>

definition send_email ::
  "env \<Rightarrow> string \<Rightarrow> string \<Rightarrow> string \<Rightarrow> string \<Rightarrow> string \<Rightarrow> string \<Rightarrow> world
     \<Rightarrow> exn option \<times> world" where
  "send_email E sender_email sender_password recipient_email subj body attachment_path w =
     (case files w attachment_path of
        None \<Rightarrow> (Some (FileNotFoundError attachment_path), w)
      | Some doc \<Rightarrow>
          (let w' = w\<lparr>sessions := sessions w @
                      [\<lparr>smtp_host = ''smtp.gmail.com'',
                        smtp_port = 587,
                        smtp_login = (sender_email, sender_password),
                        mail_from = sender_email,
                        mail_to = recipient_email,
                        mail_subject = subj,
                        attachment_name = basename attachment_path,
                        attachment = doc,
                        delivered = (smtp_error E = None)\<rparr>]\<rparr>
           in case smtp_error E of
                None \<Rightarrow> (None, print ''Email sent successfully!'' w')
              | Some e \<Rightarrow> (None, print (''Error sending email: '' @ str_exn e) w')))"

text \<open>
  The parsed command line. The sender's address and password default to the
  environment variables and are \<open>None\<close> when neither is given.
\<close>

record args =
  rss_url :: string
  kindle_email :: string
  sender_email :: "string option"
  sender_password :: "string option"
  output_filename :: string
  max_articles :: int

definition skipped_notice :: string where
  "skipped_notice =
     backslash_n @ ''Email sending is skipped. Please provide sender credentials via arguments or environment variables.''"

text \<open>
  \<^verbatim>\<open>main\<close> begins with \<^verbatim>\<open>parser.parse_args()\<close>, which gives the arguments or
  ends the run: \<^verbatim>\<open>argparse\<close> raises \<^verbatim>\<open>SystemExit\<close> with status 2 for a
  command line it rejects and with status 0 after printing its help. The
  outcome of that call is the second parameter: \<open>Inl\<close> the status, \<open>Inr\<close> the
  arguments.
\<close>

definition main :: "env \<Rightarrow> int + args \<Rightarrow> world \<Rightarrow> exn option \<times> world" where
  "main E parse_args w =
     (case parse_args of
        Inl status \<Rightarrow> (Some (SystemExit status), w)
      | Inr a \<Rightarrow>
          (case parse_rss_feed E (rss_url a) of
             Inl e \<Rightarrow> (Some e, w)
           | Inr parsed_articles \<Rightarrow>
               if parsed_articles \<noteq> [] then
                 (case process_articles (requests_get E)
                         (slice_to (max_articles a) parsed_articles) ([], w) of
                    (Some e, articles_with_content, w1) \<Rightarrow> (Some e, w1)
                  | (None, articles_with_content, w1) \<Rightarrow>
                      (let w2 = convert_to_pdf E articles_with_content (output_filename a) w1
                       in case (sender_email a, sender_password a) of
                            (Some email, Some password) \<Rightarrow>
                              if email \<noteq> [] \<and> password \<noteq> []
                              then send_email E email password (kindle_email a)
                                     ''RSS Feed Content'' ''Attached is your RSS feed content.''
                                     (output_filename a) w2
                              else (None, print skipped_notice w2)
                          | _ \<Rightarrow> (None, print skipped_notice w2)))
               else (None, w)))"

section \<open>Notions the properties are stated with\<close>

text \<open>
  Every text node below a list of nodes, in document order, each with the
  elements it lies in (outermost first), the ones in \<open>anc\<close> to begin with.
\<close>

fun texts_in :: "node list \<Rightarrow> node \<Rightarrow> (node list \<times> string) list"
  and texts_in_all :: "node list \<Rightarrow> node list \<Rightarrow> (node list \<times> string) list" where
  "texts_in anc (Text s) = [(anc, s)]"
| "texts_in anc (Comment s) = []"
| "texts_in anc (Element name cls ch) = texts_in_all (anc @ [Element name cls ch]) ch"
| "texts_in_all anc [] = []"
| "texts_in_all anc (n # ns) = texts_in anc n @ texts_in_all anc ns"

text \<open>The text nodes nested in a container, each with the elements between the container and itself.\<close>

fun nested_texts :: "node \<Rightarrow> (node list \<times> string) list" where
  "nested_texts (Element name cls ch) = texts_in_all [] ch"
| "nested_texts (Text s) = []"
| "nested_texts (Comment s) = []"

text \<open>A text node lies outside the regions \<open>P\<close> marks when none of the elements around it is one.\<close>

definition outside :: "(node \<Rightarrow> bool) \<Rightarrow> node list \<times> string \<Rightarrow> bool" where
  "outside P t = (\<forall>a \<in> set (fst t). \<not> P a)"

definition post_body :: "node \<Rightarrow> bool" where
  "post_body = has_class ''div'' ''post-body''"

definition post_labels :: "node \<Rightarrow> bool" where
  "post_labels = has_class ''div'' ''post-labels''"

text \<open>Pages to run the extraction on.\<close>

definition article_page :: soup where
  "article_page =
     [Element ''html'' []
        [Element ''body'' []
           [Element ''article'' []
              [Element ''p'' [] [Text '' Hello ''],
               Element ''p'' [] [Text ''World'']]]]]"

definition two_paragraphs :: soup where
  "two_paragraphs =
     [Element ''article'' [] [Element ''p'' [] [Text ''a''], Element ''p'' [] [Text ''b'']]]"

definition labelled_page :: soup where
  "labelled_page =
     [Element ''div'' [''post'', ''hentry'']
        [Element ''div'' [''post-body'', ''entry-content'']
           [Element ''p'' [] [Text ''Body text'']],
         Element ''div'' [''post-footer''] [Text ''Posted by me'']]]"

definition blogspot_page :: soup where
  "blogspot_page =
     [Element ''div'' [''post-body'']
        [Element ''p'' [] [Text ''Body text''],
         Element ''div'' [''post-labels''] [Text ''Labels: '', Element ''a'' [] [Text ''python'']],
         Text ''The end'']]"

text \<open>Extraction fails: the request raises, or none of the four searches finds a container.\<close>

definition no_heuristic_matches :: "soup \<Rightarrow> bool" where
  "no_heuristic_matches page =
     (soup_find post_body page = None \<and>
      soup_find (is_tag ''article'') page = None \<and>
      soup_find (has_class ''div'' ''content'') page = None \<and>
      soup_find (has_class ''div'' ''post'') page = None)"

definition extraction_fails :: "http \<Rightarrow> string \<Rightarrow> bool" where
  "extraction_fails get article_url =
     (case get article_url of
        RequestException e \<Rightarrow> True
      | Raised e \<Rightarrow> False
      | Response page \<Rightarrow> no_heuristic_matches page)"

text \<open>The request for an article ends in an exception that \<^verbatim>\<open>extract_article_content\<close> does not catch.\<close>

definition raises :: "http \<Rightarrow> string \<times> string \<Rightarrow> bool" where
  "raises get article = (case get (snd article) of Raised e \<Rightarrow> True | _ \<Rightarrow> False)"

text \<open>The section \<^verbatim>\<open>convert_to_pdf\<close> writes for one article.\<close>

definition section_html :: "string \<times> string \<Rightarrow> string" where
  "section_html article =
     ''<h1>'' @ fst article @ ''</h1>'' @ ''<div>'' @ snd article @ ''</div>'' @ ''<hr>''"

definition html_head :: string where
  "html_head = ''<html><head><meta charset='' @ [CHR 0x27] @ ''utf-8'' @ [CHR 0x27] @ ''></head><body>''"

text \<open>A run of \<^verbatim>\<open>rss_to_kindle.py\<close>: two entries, the first on a host that does not answer.\<close>

definition sample_get :: http where
  "sample_get article_url =
     (if article_url = ''http://example.org/down'' then RequestException ''timed out''
      else Response article_page)"

definition sample_entries :: "entry list" where
  "sample_entries =
     [\<lparr>title = Some ''Down'', link = Some ''http://example.org/down'',
       published = Inl (TypeError ''not subscriptable'')\<rparr>,
      \<lparr>title = Some ''Up'', link = Some ''http://example.org/up'',
       published = Inr 63900000000000000\<rparr>]"

definition sample_env :: env where
  "sample_env =
     \<lparr>feedparser_parse = (\<lambda>feed_url. sample_entries),
      requests_get = sample_get,
      newspaper = (\<lambda>article_url. Inl (IOError ''download failed'')),
      now = 63900000000000000,
      strftime = (\<lambda>t fmt. ''2025-11-30''),
      pdfkit_error = (\<lambda>html path. None),
      write_epub_error = (\<lambda>path. None),
      smtp_error = Some (SMTPException ''connection refused'')\<rparr>"

definition sample_args :: args where
  "sample_args =
     \<lparr>rss_url = ''http://example.org/feed'',
      kindle_email = ''reader@kindle.com'',
      sender_email = Some ''me@example.org'',
      sender_password = Some ''secret'',
      output_filename = ''rss_feed.pdf'',
      max_articles = 10\<rparr>"

definition empty_world :: world where
  "empty_world = \<lparr>stdout = [], files = Map.empty, sessions = []\<rparr>"

definition rejected_get :: http where
  "rejected_get article_url =
     (if article_url = ''http://example.org/down''
      then Raised (ParserRejectedMarkup ''the markup could not be parsed'')
      else Response article_page)"

definition rejected_env :: env where
  "rejected_env = sample_env\<lparr>requests_get := rejected_get\<rparr>"

definition negative_args :: args where
  "negative_args = sample_args\<lparr>max_articles := - 1\<rparr>"

definition three_entries :: "entry list" where
  "three_entries =
     [\<lparr>title = Some ''One'', link = Some ''http://example.org/1'', published = Inr 63900000000000000\<rparr>,
      \<lparr>title = Some ''Two'', link = Some ''http://example.org/2'', published = Inr 63900000000000000\<rparr>,
      \<lparr>title = Some ''Three'', link = Some ''http://example.org/3'', published = Inr 63900000000000000\<rparr>]"

definition three_env :: env where
  "three_env = sample_env\<lparr>feedparser_parse := (\<lambda>feed_url. three_entries)\<rparr>"


text \<open>
  What the loop of \<^verbatim>\<open>main\<close> makes of a parsed article whose request does not
  raise out of \<^verbatim>\<open>extract_article_content\<close>: the (title, content) pair. (For
  one that does there is no content, and the pair has none.)
\<close>

definition with_content :: "http \<Rightarrow> string \<times> string \<Rightarrow> string \<times> string" where
  "with_content get article =
     (fst article,
      case extract_article_content get (snd article) of
        Inr content \<Rightarrow> replace backslash_n ''<br>'' content
      | Inl e \<Rightarrow> [])"

text \<open>\<^verbatim>\<open>if args.sender_email and args.sender_password\<close>.\<close>

definition has_credentials :: "args \<Rightarrow> bool" where
  "has_credentials a = (truthy (sender_email a) \<and> truthy (sender_password a))"

text \<open>
  The article \<^verbatim>\<open>fetch_articles\<close> keeps for an entry, if it keeps one: the entry
  has a date, the date is not before the cutoff, and title and link are there.
\<close>

definition entry_article :: "string \<Rightarrow> int \<Rightarrow> entry \<Rightarrow> article option" where
  "entry_article fname cutoff_date e =
     (case (published e, title e, link e) of
        (Inr pub_date, Some t, Some l) \<Rightarrow>
          if pub_date \<ge> cutoff_date
          then Some \<lparr>art_title = t, art_url = l, art_feed_name = fname, art_date = pub_date,
                     art_content = None, art_authors = None\<rparr>
          else None
      | _ \<Rightarrow> None)"

text \<open>An element of the list given to \<^verbatim>\<open>create_epub\<close> that is an article with non-empty content.\<close>

definition has_content :: "article option \<Rightarrow> bool" where
  "has_content x = (case x of None \<Rightarrow> False | Some a \<Rightarrow> truthy (art_content a))"


text \<open>A run of \<^verbatim>\<open>RSS_script.py\<close>.\<close>

definition sample_feeds :: "feed_source list" where
  "sample_feeds = [\<lparr>source_name = ''Tech News'', source_url = ''https://techcrunch.com/feed/''\<rparr>]"

definition sample_article :: article where
  "sample_article =
     \<lparr>art_title = ''Up'', art_url = ''http://example.org/up'', art_feed_name = ''Tech News'',
      art_date = 63900000000000000, art_content = None, art_authors = None\<rparr>"

definition sample_articles :: "article option list" where
  "sample_articles =
     [Some (sample_article\<lparr>art_content := Some []\<rparr>),
      Some (sample_article\<lparr>art_content := Some ''Text'', art_authors := Some []\<rparr>),
      None,
      Some sample_article]"

definition boundary_entry :: entry where
  "boundary_entry =
     \<lparr>title = Some ''Edge'', link = Some ''http://example.org/edge'',
      published = Inr (63900000000000000 - 86400000000)\<rparr>"

definition boundary_env :: env where
  "boundary_env = sample_env\<lparr>feedparser_parse := (\<lambda>feed_url. [boundary_entry])\<rparr>"

section \<open>Facts about parsed pages\<close>

lemma texts_in_hidden:
  "(\<exists>a \<in> set anc. P a) \<Longrightarrow> filter (outside P) (texts_in anc n) = []"
  "(\<exists>a \<in> set anc. P a) \<Longrightarrow> filter (outside P) (texts_in_all anc ns) = []"
  by (induction anc n and anc ns rule: texts_in_texts_in_all.induct)
     (auto simp: outside_def)

lemma texts_in_removed:
  assumes "P n" and "\<And>s. \<not> P (Text s)"
  shows "filter (outside P) (texts_in anc n) = []"
proof (cases n)
  case (Text s)
  with assms show ?thesis by simp
next
  case (Comment s)
  then show ?thesis by simp
next
  case (Element name cls ch)
  with assms(1) have "\<exists>a \<in> set (anc @ [n]). P a" by simp
  then have "filter (outside P) (texts_in_all (anc @ [n]) ch) = []"
    by (rule texts_in_hidden(2))
  with Element show ?thesis by simp
qed

lemma strings_decompose:
  assumes "\<And>s. \<not> P (Text s)"
  shows "(\<forall>a \<in> set anc. \<not> P a) \<Longrightarrow> \<not> P n \<Longrightarrow>
     strings (decompose_below P n) = map snd (filter (outside P) (texts_in anc n))"
  and "(\<forall>a \<in> set anc. \<not> P a) \<Longrightarrow>
     strings_of (decompose_all P ns) = map snd (filter (outside P) (texts_in_all anc ns))"
proof (induction anc n and anc ns rule: texts_in_texts_in_all.induct)
  case (1 anc s)
  then show ?case by (simp add: outside_def)
next
  case (2 anc s)
  then show ?case by simp
next
  case (3 anc name cls ch)
  then show ?case by simp
next
  case (4 anc)
  then show ?case by simp
next
  case (5 anc n ns)
  show ?case
  proof (cases "P n")
    case True
    then have "filter (outside P) (texts_in anc n) = []"
      using assms by (rule texts_in_removed)
    with True 5 show ?thesis by simp
  next
    case False
    with 5 show ?thesis by simp
  qed
qed

lemma soup_find_None: "soup_find P page = None \<longleftrightarrow> (\<forall>n \<in> set (descendants_of page). \<not> P n)"
  by (auto simp: soup_find_def find_None_iff)

lemma soup_find_holds: "soup_find P page = Some x \<Longrightarrow> P x"
  by (auto simp: soup_find_def find_Some_iff)

lemma extract_response:
  "get url = Response page \<Longrightarrow> extract_article_content get url = Inr (extract_from_soup page)"
  by (simp add: extract_article_content_def)

section \<open>The heuristic chain of \<^verbatim>\<open>extract_article_content\<close>\<close>

text \<open>
  C4. Content extraction applies its heuristics in fixed priority order, the
  first match winning: the \<^verbatim>\<open>post-body\<close> container first (with its
  \<^verbatim>\<open>post-labels\<close> regions taken out), then the first \<^verbatim>\<open><article>\<close>
  element, then the first \<^verbatim>\<open>div\<close> of class \<^verbatim>\<open>content\<close>, then the first of
  class \<^verbatim>\<open>post\<close>. So a page with no \<^verbatim>\<open>post-body\<close> container anywhere and
  an \<^verbatim>\<open><article>\<close> element yields the text of that element, not the
  failure message.
\<close>

theorem heuristics_in_priority_order:
  assumes "get url = Response page"
  shows "(\<forall>b. soup_find post_body page = Some b \<longrightarrow>
            extract_article_content get url = Inr (get_text backslash_n (decompose_below post_labels b))) \<and>
         ((\<forall>n \<in> set (descendants_of page). \<not> post_body n) \<longrightarrow>
            (\<forall>a. soup_find (is_tag ''article'') page = Some a \<longrightarrow>
               extract_article_content get url = Inr (get_text backslash_n a)) \<and>
            (soup_find (is_tag ''article'') page = None \<longrightarrow>
               (\<forall>c. soup_find (has_class ''div'' ''content'') page = Some c \<longrightarrow>
                  extract_article_content get url = Inr (get_text backslash_n c)) \<and>
               (soup_find (has_class ''div'' ''content'') page = None \<longrightarrow>
                  (\<forall>p. soup_find (has_class ''div'' ''post'') page = Some p \<longrightarrow>
                     extract_article_content get url = Inr (get_text backslash_n p)) \<and>
                  (soup_find (has_class ''div'' ''post'') page = None \<longrightarrow>
                     extract_article_content get url = Inr could_not_extract))))"
proof -
  have e: "extract_article_content get url = Inr (extract_from_soup page)"
    using assms by (rule extract_response)
  have first: "\<And>b. soup_find post_body page = Some b \<Longrightarrow>
      extract_from_soup page = get_text backslash_n (decompose_below post_labels b)"
    by (simp add: extract_from_soup_def post_body_def post_labels_def)
  have rest: "soup_find post_body page = None \<Longrightarrow>
      extract_from_soup page =
        (case or_else (soup_find (is_tag ''article'') page)
                (or_else (soup_find (has_class ''div'' ''content'') page)
                         (soup_find (has_class ''div'' ''post'') page)) of
           Some article_body \<Rightarrow> get_text backslash_n article_body
         | None \<Rightarrow> could_not_extract)"
    by (simp add: extract_from_soup_def post_body_def)
  show ?thesis
    unfolding e using first rest
    by (auto simp: soup_find_None [symmetric] or_else_def)
qed

text \<open>
  The chain on a page whose only container is an \<^verbatim>\<open><article>\<close> element with
  two paragraphs.
\<close>

theorem heuristics_in_priority_order_witness:
  "filter post_body (descendants_of article_page) = [] \<and>
   soup_find (is_tag ''article'') article_page =
     Some (Element ''article'' [] [Element ''p'' [] [Text '' Hello ''], Element ''p'' [] [Text ''World'']]) \<and>
   extract_article_content (\<lambda>u. Response article_page) ''http://example.org/a'' =
     Inr (''Hello'' @ backslash_n @ ''World'')"
proof -
  have m: "\<forall>n \<in> set (descendants_of article_page). \<not> post_body n"
    by (simp add: article_page_def post_body_def)
  have a: "soup_find (is_tag ''article'') article_page =
     Some (Element ''article'' [] [Element ''p'' [] [Text '' Hello ''], Element ''p'' [] [Text ''World'']])"
    by (simp add: article_page_def soup_find_def)
  have t: "get_text backslash_n
      (Element ''article'' [] [Element ''p'' [] [Text '' Hello ''], Element ''p'' [] [Text ''World'']]) =
     ''Hello'' @ backslash_n @ ''World''"
    by (simp add: get_text_def stripped_strings_def py_strip_def py_isspace_def)
  have n: "filter post_body (descendants_of article_page) = []"
    by (simp add: article_page_def post_body_def)
  from heuristics_in_priority_order [of "\<lambda>u. Response article_page" "''http://example.org/a''" article_page]
    m a t n show ?thesis by simp
qed

text \<open>
  C7. The specification has the text nodes joined by a line feed. The source
  passes \<^verbatim>\<open>separator='\\n'\<close>, which is a backslash followed by \<open>n\<close>: two
  paragraphs \<open>a\<close> and \<open>b\<close> come out as the four characters \<^verbatim>\<open>a\nb\<close>, and not
  as \<open>a\<close>, a line feed, \<open>b\<close>.
\<close>

theorem separator_is_backslash_n:
  "extract_article_content (\<lambda>u. Response two_paragraphs) ''http://example.org/a'' =
     Inr [CHR ''a'', CHR 0x5C, CHR ''n'', CHR ''b''] \<and>
   extract_article_content (\<lambda>u. Response two_paragraphs) ''http://example.org/a'' \<noteq>
     Inr (''a'' @ line_feed @ ''b'')"
  by (simp add: extract_article_content_def extract_from_soup_def two_paragraphs_def
      soup_find_def or_else_def get_text_def stripped_strings_def py_strip_def py_isspace_def
      backslash_n_def line_feed_def)

text \<open>
  C8. When the page has a \<^verbatim>\<open>post-body\<close> container, the extracted content is
  made of the text nodes of that container that lie in no \<^verbatim>\<open>post-labels\<close>
  \<^verbatim>\<open>div\<close>, and of nothing else: no text node of a nested \<^verbatim>\<open>post-labels\<close>
  region contributes to it.
\<close>

theorem post_labels_text_excluded:
  assumes "get url = Response page"
    and "soup_find post_body page = Some body"
  shows "extract_article_content get url =
           Inr (join backslash_n
                  (filter (\<lambda>s. s \<noteq> [])
                     (map py_strip (map snd (filter (outside post_labels) (nested_texts body))))))"
proof -
  from assms(2) have "post_body body" by (rule soup_find_holds)
  then obtain name cls ch where b: "body = Element name cls ch"
    by (cases body) (simp_all add: post_body_def)
  have "strings_of (decompose_all post_labels ch) =
          map snd (filter (outside post_labels) (texts_in_all [] ch))"
    by (rule strings_decompose(2)) (simp_all add: post_labels_def)
  with b have s: "strings (decompose_below post_labels body) =
          map snd (filter (outside post_labels) (nested_texts body))"
    by simp
  have "extract_article_content get url = Inr (get_text backslash_n (decompose_below post_labels body))"
    using assms by (simp add: extract_article_content_def extract_from_soup_def post_body_def post_labels_def)
  then show ?thesis
    by (simp add: get_text_def stripped_strings_def s)
qed

text \<open>
  A post body with a paragraph, a label block and a closing line: the label
  block and the link in it are among the text nodes, and not in the result.
\<close>

theorem post_labels_text_excluded_witness:
  "soup_find post_body blogspot_page = Some (hd blogspot_page) \<and>
   map snd (filter (outside post_labels) (nested_texts (hd blogspot_page))) = [''Body text'', ''The end''] \<and>
   map snd (nested_texts (hd blogspot_page)) = [''Body text'', ''Labels: '', ''python'', ''The end''] \<and>
   extract_article_content (\<lambda>u. Response blogspot_page) ''http://example.org/post'' =
     Inr (''Body text'' @ backslash_n @ ''The end'')"
proof -
  have f: "soup_find post_body blogspot_page = Some (hd blogspot_page)"
    by (simp add: blogspot_page_def soup_find_def post_body_def)
  have k: "map snd (filter (outside post_labels) (nested_texts (hd blogspot_page))) =
             [''Body text'', ''The end'']"
    by (simp add: blogspot_page_def outside_def post_labels_def)
  have a: "map snd (nested_texts (hd blogspot_page)) =
             [''Body text'', ''Labels: '', ''python'', ''The end'']"
    by (simp add: blogspot_page_def)
  have "extract_article_content (\<lambda>u. Response blogspot_page) ''http://example.org/post'' =
          Inr (join backslash_n (filter (\<lambda>s. s \<noteq> []) (map py_strip [''Body text'', ''The end''])))"
    using post_labels_text_excluded [of "\<lambda>u. Response blogspot_page" "''http://example.org/post''"
        blogspot_page "hd blogspot_page"] f k
    by simp
  then have "extract_article_content (\<lambda>u. Response blogspot_page) ''http://example.org/post'' =
     Inr (''Body text'' @ backslash_n @ ''The end'')"
    by (simp add: py_strip_def py_isspace_def)
  with f k a show ?thesis by simp
qed

section \<open>The run of \<^verbatim>\<open>rss_to_kindle.py\<close>\<close>

lemma with_content_Inr:
  "extract_article_content get l = Inr content \<Longrightarrow>
     with_content get (t, l) = (t, replace backslash_n ''<br>'' content)"
  by (simp add: with_content_def)

lemma not_raises_Inr:
  "\<not> raises get (t, l) \<Longrightarrow> \<exists>content. extract_article_content get l = Inr content"
  by (cases "get l") (simp_all add: raises_def extract_article_content_def)

lemma process_articles_ok:
  "\<forall>article \<in> set parsed. \<not> raises get article \<Longrightarrow>
   process_articles get parsed (acc, w) =
     (None, acc @ map (with_content get) parsed,
      w\<lparr>stdout := stdout w @ map (\<lambda>article. ''Processing: '' @ fst article) parsed\<rparr>)"
proof (induction parsed arbitrary: acc w)
  case Nil
  then show ?case by simp
next
  case (Cons article parsed)
  obtain t l where a: "article = (t, l)" by (cases article)
  with Cons.prems have "\<not> raises get (t, l)" by simp
  then obtain content where c: "extract_article_content get l = Inr content"
    using not_raises_Inr by blast
  from Cons.prems have r: "\<forall>article \<in> set parsed. \<not> raises get article" by simp
  show ?case
    using a c with_content_Inr [OF c, of t]
    by (simp add: Cons.IH [OF r] print_def)
qed

lemma process_articles_raise:
  "\<forall>article \<in> set before. \<not> raises get article \<Longrightarrow> get l = Raised e \<Longrightarrow>
   process_articles get (before @ (t, l) # after) (acc, w) =
     (Some e, acc @ map (with_content get) before,
      w\<lparr>stdout := stdout w @ map (\<lambda>article. ''Processing: '' @ fst article) (before @ [(t, l)])\<rparr>)"
proof (induction before arbitrary: acc w)
  case Nil
  then show ?case by (simp add: extract_article_content_def print_def)
next
  case (Cons article before)
  obtain t' l' where a: "article = (t', l')" by (cases article)
  with Cons.prems have "\<not> raises get (t', l')" by simp
  then obtain content where c: "extract_article_content get l' = Inr content"
    using not_raises_Inr by blast
  from Cons.prems have r: "\<forall>article \<in> set before. \<not> raises get article" by simp
  show ?case
    using a c with_content_Inr [OF c, of t']
    by (simp add: Cons.IH [OF r Cons.prems(2)] print_def)
qed

lemma html_loop_eq: "html_loop articles html = html @ concat (map section_html articles)"
  by (induction articles arbitrary: html) (auto simp: section_html_def)

lemma render_html_eq:
  "render_html articles = html_head @ concat (map section_html articles) @ ''</body></html>''"
  by (simp add: render_html_def html_loop_eq html_head_def)

lemma convert_to_pdf_files:
  "files (convert_to_pdf E articles path w) =
     (case pdfkit_error E (render_html articles) path of
        None \<Rightarrow> (files w)(path \<mapsto> Pdf (render_html articles))
      | Some e \<Rightarrow> files w)"
  by (simp add: convert_to_pdf_def print_def split: option.splits)

lemma convert_to_pdf_sessions: "sessions (convert_to_pdf E articles path w) = sessions w"
  by (simp add: convert_to_pdf_def print_def split: option.splits)


lemma send_email_files: "files (snd (send_email E u p r s b path w)) = files w"
  by (simp add: send_email_def print_def Let_def split: option.splits)


lemma main_eq:
  assumes "parse_rss_feed E (rss_url a) = Inr parsed" and "parsed \<noteq> []"
    and "\<forall>article \<in> set (slice_to (max_articles a) parsed). \<not> raises (requests_get E) article"
  shows "main E (Inr a) w =
     (let w2 = convert_to_pdf E (map (with_content (requests_get E)) (slice_to (max_articles a) parsed))
                 (output_filename a)
                 (w\<lparr>stdout := stdout w @
                     map (\<lambda>article. ''Processing: '' @ fst article) (slice_to (max_articles a) parsed)\<rparr>)
      in if has_credentials a
         then send_email E (the (sender_email a)) (the (sender_password a)) (kindle_email a)
                ''RSS Feed Content'' ''Attached is your RSS feed content.'' (output_filename a) w2
         else (None, print skipped_notice w2))"
  using assms(1,2)
  by (auto simp: main_def process_articles_ok [OF assms(3)] has_credentials_def truthy_def Let_def
      split: option.splits)

lemma main_raise:
  assumes "parse_rss_feed E (rss_url a) = Inr parsed"
    and "slice_to (max_articles a) parsed = before @ (t, l) # after"
    and "\<forall>article \<in> set before. \<not> raises (requests_get E) article"
    and "requests_get E l = Raised e"
  shows "main E (Inr a) w =
     (Some e, w\<lparr>stdout := stdout w @
                   map (\<lambda>article. ''Processing: '' @ fst article) (before @ [(t, l)])\<rparr>)"
proof -
  from assms(2) have "parsed \<noteq> []" by (auto simp: slice_to_def split: if_splits)
  with assms(1) show ?thesis
    by (simp add: main_def assms(2) process_articles_raise [OF assms(3,4)])
qed

lemma extraction_fails_text:
  assumes "extraction_fails get url"
  shows "(\<forall>e. get url = RequestException e \<longrightarrow>
            extract_article_content get url = Inr (''Error fetching article: '' @ e)) \<and>
         (\<forall>page. get url = Response page \<longrightarrow>
            extract_article_content get url = Inr could_not_extract)"
  using assms
  by (auto simp: extraction_fails_def extract_article_content_def extract_from_soup_def
      no_heuristic_matches_def post_body_def or_else_def)

lemma replace_could_not_extract:
  "replace backslash_n ''<br>'' could_not_extract = could_not_extract"
  by (simp add: replace_def backslash_n_def could_not_extract_def)

lemma sample_parse:
  "parse_rss_feed sample_env ''http://example.org/feed'' =
     Inr [(''Down'', ''http://example.org/down''), (''Up'', ''http://example.org/up'')]"
  by (simp add: parse_rss_feed_def sample_env_def sample_entries_def)

lemma sample_up:
  "extract_article_content sample_get ''http://example.org/up'' = Inr (''Hello'' @ backslash_n @ ''World'')"
  by (simp add: extract_article_content_def sample_get_def extract_from_soup_def article_page_def
      soup_find_def or_else_def get_text_def stripped_strings_def py_strip_def py_isspace_def)

lemma sample_down:
  "extract_article_content sample_get ''http://example.org/down'' = Inr ''Error fetching article: timed out''"
  by (simp add: extract_article_content_def sample_get_def)

lemma sample_sections:
  "map (with_content sample_get)
     [(''Down'', ''http://example.org/down''), (''Up'', ''http://example.org/up'')] =
   [(''Down'', ''Error fetching article: timed out''), (''Up'', ''Hello<br>World'')]"
  by (simp add: with_content_def sample_up sample_down replace_def backslash_n_def)

lemma sample_no_raise: "\<not> raises sample_get article"
  by (simp add: raises_def sample_get_def)

text \<open>
  C1, as the specification words it, has a failed article left out of the
  document and no error text in it. In the sample run the first article cannot
  be fetched, and the document that is written has a section for it whose
  content is the error text.
\<close>

theorem error_text_in_document:
  "extraction_fails sample_get ''http://example.org/down'' \<and>
   files (snd (main sample_env (Inr sample_args) empty_world)) ''rss_feed.pdf'' =
     Some (Pdf (html_head @
                ''<h1>Down</h1><div>Error fetching article: timed out</div><hr>'' @
                ''<h1>Up</h1><div>Hello<br>World</div><hr>'' @
                ''</body></html>''))"
proof -
  have f: "extraction_fails sample_get ''http://example.org/down''"
    by (simp add: extraction_fails_def sample_get_def)
  have p: "parse_rss_feed sample_env (rss_url sample_args) =
     Inr [(''Down'', ''http://example.org/down''), (''Up'', ''http://example.org/up'')]"
    using sample_parse by (simp add: sample_args_def)
  have g: "requests_get sample_env = sample_get" "max_articles sample_args = 10"
    "output_filename sample_args = ''rss_feed.pdf''"
    "\<And>h q. pdfkit_error sample_env h q = None"
    by (simp_all add: sample_env_def sample_args_def)
  have n: "\<forall>article \<in> set (slice_to (max_articles sample_args)
              [(''Down'', ''http://example.org/down''), (''Up'', ''http://example.org/up'')]).
             \<not> raises (requests_get sample_env) article"
    by (simp add: g sample_no_raise)
  have "files (snd (main sample_env (Inr sample_args) empty_world)) ''rss_feed.pdf'' =
     Some (Pdf (render_html [(''Down'', ''Error fetching article: timed out''), (''Up'', ''Hello<br>World'')]))"
    using sample_sections
    by (simp add: main_eq [OF p _ n] Let_def send_email_files convert_to_pdf_files g slice_to_def print_def)
  with f show ?thesis
    by (simp add: render_html_eq section_html_def)
qed

text \<open>
  C1, as the code has it. When extraction fails for an article (the request
  raises a \<^verbatim>\<open>RequestException\<close>, or no heuristic matches the page) the run goes
  on and the article stays: as long as no request raises an exception that
  \<^verbatim>\<open>extract_article_content\<close> does not catch, the document has one section for
  every article processed, in feed order, and the section of an article whose
  extraction failed holds the failure message as its content:
  \<^verbatim>\<open>Error fetching article: \<close> followed by the message of the exception (with
  the separator sequence replaced like everywhere else), or
  \<^verbatim>\<open>Could not extract article content.\<close> An exception of another class, such
  as the one \<^verbatim>\<open>BeautifulSoup\<close> raises on markup its parser rejects, is not
  caught: it leaves \<^verbatim>\<open>main\<close> at the first article that meets it, and the run
  writes no file.
\<close>

theorem failed_extraction_keeps_article:
  assumes "parse_rss_feed E (rss_url a) = Inr parsed" and "parsed \<noteq> []"
  shows "((\<forall>article \<in> set (slice_to (max_articles a) parsed). \<not> raises (requests_get E) article) \<and>
          pdfkit_error E
            (render_html (map (with_content (requests_get E)) (slice_to (max_articles a) parsed)))
            (output_filename a) = None \<longrightarrow>
            files (snd (main E (Inr a) w)) (output_filename a) =
              Some (Pdf (html_head @
                         concat (map section_html
                                   (map (with_content (requests_get E))
                                      (slice_to (max_articles a) parsed))) @
                         ''</body></html>'')) \<and>
            (\<forall>article \<in> set (slice_to (max_articles a) parsed).
               extraction_fails (requests_get E) (snd article) \<longrightarrow>
                 (\<forall>e. requests_get E (snd article) = RequestException e \<longrightarrow>
                    with_content (requests_get E) article =
                      (fst article, replace backslash_n ''<br>'' (''Error fetching article: '' @ e))) \<and>
                 (\<forall>page. requests_get E (snd article) = Response page \<longrightarrow>
                    with_content (requests_get E) article = (fst article, could_not_extract)))) \<and>
         (\<forall>before t l after e.
            slice_to (max_articles a) parsed = before @ (t, l) # after \<and>
            (\<forall>article \<in> set before. \<not> raises (requests_get E) article) \<and>
            requests_get E l = Raised e \<longrightarrow>
              fst (main E (Inr a) w) = Some e \<and> files (snd (main E (Inr a) w)) = files w)"
proof (intro conjI impI allI)
  assume h: "(\<forall>article \<in> set (slice_to (max_articles a) parsed). \<not> raises (requests_get E) article) \<and>
          pdfkit_error E
            (render_html (map (with_content (requests_get E)) (slice_to (max_articles a) parsed)))
            (output_filename a) = None"
  then have n: "\<forall>article \<in> set (slice_to (max_articles a) parsed). \<not> raises (requests_get E) article"
    by simp
  have "files (snd (main E (Inr a) w)) (output_filename a) =
          Some (Pdf (render_html (map (with_content (requests_get E))
                                    (slice_to (max_articles a) parsed))))"
    using h
    by (simp add: main_eq [OF assms n] Let_def send_email_files convert_to_pdf_files print_def)
  then show "files (snd (main E (Inr a) w)) (output_filename a) =
              Some (Pdf (html_head @
                         concat (map section_html
                                   (map (with_content (requests_get E))
                                      (slice_to (max_articles a) parsed))) @
                         ''</body></html>''))"
    by (simp add: render_html_eq)
  show "\<forall>article \<in> set (slice_to (max_articles a) parsed).
               extraction_fails (requests_get E) (snd article) \<longrightarrow>
                 (\<forall>e. requests_get E (snd article) = RequestException e \<longrightarrow>
                    with_content (requests_get E) article =
                      (fst article, replace backslash_n ''<br>'' (''Error fetching article: '' @ e))) \<and>
                 (\<forall>page. requests_get E (snd article) = Response page \<longrightarrow>
                    with_content (requests_get E) article = (fst article, could_not_extract))"
    using extraction_fails_text
    by (simp add: with_content_def replace_could_not_extract)
next
  fix before t l after e
  assume h: "slice_to (max_articles a) parsed = before @ (t, l) # after \<and>
            (\<forall>article \<in> set before. \<not> raises (requests_get E) article) \<and>
            requests_get E l = Raised e"
  then have m: "main E (Inr a) w =
     (Some e, w\<lparr>stdout := stdout w @
                   map (\<lambda>article. ''Processing: '' @ fst article) (before @ [(t, l)])\<rparr>)"
    using main_raise [OF assms(1), of before t l after e w] by blast
  show "fst (main E (Inr a) w) = Some e" by (simp add: m)
  show "files (snd (main E (Inr a) w)) = files w" by (simp add: m)
qed

text \<open>
  The sample run: both articles are in the document, the failed one with its
  message. The same feed with a first page that the parser rejects: the
  exception leaves \<^verbatim>\<open>main\<close> and there is no document.
\<close>

theorem failed_extraction_keeps_article_witness:
  "files (snd (main sample_env (Inr sample_args) empty_world)) (output_filename sample_args) =
     Some (Pdf (html_head @
                concat (map section_html
                   [(''Down'', ''Error fetching article: timed out''), (''Up'', ''Hello<br>World'')]) @
                ''</body></html>'')) \<and>
   extraction_fails sample_get ''http://example.org/down'' \<and>
   with_content sample_get (''Down'', ''http://example.org/down'') =
     (''Down'', ''Error fetching article: timed out'') \<and>
   fst (main rejected_env (Inr sample_args) empty_world) =
     Some (ParserRejectedMarkup ''the markup could not be parsed'') \<and>
   files (snd (main rejected_env (Inr sample_args) empty_world)) (output_filename sample_args) = None"
proof -
  have p: "parse_rss_feed sample_env (rss_url sample_args) =
     Inr [(''Down'', ''http://example.org/down''), (''Up'', ''http://example.org/up'')]"
    using sample_parse by (simp add: sample_args_def)
  have n0: "[(''Down'', ''http://example.org/down''), (''Up'', ''http://example.org/up'')] \<noteq> []"
    by simp
  have g: "requests_get sample_env = sample_get" "max_articles sample_args = 10"
    "\<And>h q. pdfkit_error sample_env h q = None"
    by (simp_all add: sample_env_def sample_args_def)
  have f: "extraction_fails sample_get ''http://example.org/down''"
    by (simp add: extraction_fails_def sample_get_def)
  have n: "\<forall>article \<in> set (slice_to (max_articles sample_args)
              [(''Down'', ''http://example.org/down''), (''Up'', ''http://example.org/up'')]).
             \<not> raises (requests_get sample_env) article"
    by (simp add: g sample_no_raise)
  have k: "pdfkit_error sample_env
            (render_html (map (with_content (requests_get sample_env))
               (slice_to (max_articles sample_args)
                  [(''Down'', ''http://example.org/down''), (''Up'', ''http://example.org/up'')])))
            (output_filename sample_args) = None"
    by (simp add: g)
  have s: "slice_to (max_articles sample_args)
             [(''Down'', ''http://example.org/down''), (''Up'', ''http://example.org/up'')] =
           [(''Down'', ''http://example.org/down''), (''Up'', ''http://example.org/up'')]"
    by (simp add: g slice_to_def)
  note t1 = failed_extraction_keeps_article [OF p n0, of empty_world, THEN conjunct1, rule_format,
      OF conjI [OF n k], THEN conjunct1]
  have a: "files (snd (main sample_env (Inr sample_args) empty_world)) (output_filename sample_args) =
     Some (Pdf (html_head @
                concat (map section_html
                   [(''Down'', ''Error fetching article: timed out''), (''Up'', ''Hello<br>World'')]) @
                ''</body></html>''))"
    using t1 sample_sections by (simp add: g slice_to_def)
  have d: "with_content sample_get (''Down'', ''http://example.org/down'') =
     (''Down'', ''Error fetching article: timed out'')"
    using sample_sections by simp
  have p': "parse_rss_feed rejected_env (rss_url sample_args) =
     Inr [(''Down'', ''http://example.org/down''), (''Up'', ''http://example.org/up'')]"
    by (simp add: parse_rss_feed_def rejected_env_def sample_env_def sample_entries_def sample_args_def)
  have s': "slice_to (max_articles sample_args)
             [(''Down'', ''http://example.org/down''), (''Up'', ''http://example.org/up'')] =
           [] @ (''Down'', ''http://example.org/down'') # [(''Up'', ''http://example.org/up'')]"
    by (simp add: g slice_to_def)
  have r: "requests_get rejected_env ''http://example.org/down'' =
             Raised (ParserRejectedMarkup ''the markup could not be parsed'')"
    by (simp add: rejected_env_def rejected_get_def)
  have e: "\<forall>article \<in> set []. \<not> raises (requests_get rejected_env) article" by simp
  note t2 = failed_extraction_keeps_article [OF p' n0, of empty_world, THEN conjunct2, rule_format,
      OF conjI [OF s' conjI [OF e r]]]
  have b: "fst (main rejected_env (Inr sample_args) empty_world) =
     Some (ParserRejectedMarkup ''the markup could not be parsed'')"
    using t2 by simp
  have c: "files (snd (main rejected_env (Inr sample_args) empty_world)) (output_filename sample_args) = None"
    using t2 by (simp add: empty_world_def)
  from a f d b c show ?thesis by (intro conjI)
qed

text \<open>
  C10. When the sender's address or password is missing (\<open>None\<close> or empty),
  a run that reaches the delivery step (the command line is parsed, the feed
  has at least one entry, and no request raises out of the article loop)
  renders the PDF as it would otherwise, opens no SMTP session, prints the
  notice as its last line and returns without an exception.
\<close>

theorem delivery_skipped_without_credentials:
  assumes "\<not> has_credentials a"
    and "parse_rss_feed E (rss_url a) = Inr parsed" and "parsed \<noteq> []"
    and "\<forall>article \<in> set (slice_to (max_articles a) parsed). \<not> raises (requests_get E) article"
  shows "fst (main E (Inr a) w) = None \<and>
         sessions (snd (main E (Inr a) w)) = sessions w \<and>
         last (stdout (snd (main E (Inr a) w))) = skipped_notice \<and>
         (pdfkit_error E
            (render_html (map (with_content (requests_get E)) (slice_to (max_articles a) parsed)))
            (output_filename a) = None \<longrightarrow>
          files (snd (main E (Inr a) w)) (output_filename a) =
            Some (Pdf (render_html (map (with_content (requests_get E))
                                      (slice_to (max_articles a) parsed)))))"
  using assms(1)
  by (simp add: main_eq [OF assms(2,3,4)] Let_def convert_to_pdf_files convert_to_pdf_sessions
      print_def)

text \<open>
  The sample run without a password.
\<close>

theorem delivery_skipped_without_credentials_witness:
  "\<not> has_credentials (sample_args\<lparr>sender_password := None\<rparr>) \<and>
   fst (main sample_env (Inr (sample_args\<lparr>sender_password := None\<rparr>)) empty_world) = None \<and>
   sessions (snd (main sample_env (Inr (sample_args\<lparr>sender_password := None\<rparr>)) empty_world)) = [] \<and>
   last (stdout (snd (main sample_env (Inr (sample_args\<lparr>sender_password := None\<rparr>)) empty_world))) =
     skipped_notice \<and>
   files (snd (main sample_env (Inr (sample_args\<lparr>sender_password := None\<rparr>)) empty_world)) ''rss_feed.pdf'' =
     Some (Pdf (render_html
       [(''Down'', ''Error fetching article: timed out''), (''Up'', ''Hello<br>World'')]))"
proof -
  have c: "\<not> has_credentials (sample_args\<lparr>sender_password := None\<rparr>)"
    by (simp add: has_credentials_def truthy_def)
  have p: "parse_rss_feed sample_env (rss_url (sample_args\<lparr>sender_password := None\<rparr>)) =
     Inr [(''Down'', ''http://example.org/down''), (''Up'', ''http://example.org/up'')]"
    using sample_parse by (simp add: sample_args_def)
  have n0: "[(''Down'', ''http://example.org/down''), (''Up'', ''http://example.org/up'')] \<noteq> []"
    by simp
  have g: "requests_get sample_env = sample_get" "max_articles sample_args = 10"
    "output_filename sample_args = ''rss_feed.pdf''"
    "\<And>h q. pdfkit_error sample_env h q = None" "sessions empty_world = []"
    by (simp_all add: sample_env_def sample_args_def empty_world_def)
  have n: "\<forall>article \<in> set (slice_to (max_articles (sample_args\<lparr>sender_password := None\<rparr>))
              [(''Down'', ''http://example.org/down''), (''Up'', ''http://example.org/up'')]).
             \<not> raises (requests_get sample_env) article"
    by (simp add: g sample_no_raise)
  from delivery_skipped_without_credentials [OF c p n0 n, of empty_world] c g sample_sections
  show ?thesis by (simp add: slice_to_def)
qed

section \<open>\<^verbatim>\<open>fetch_articles\<close> and the limit\<close>

lemma fetch_entry_fst:
  "fst (fetch_entry fname c e (arts, w)) =
     arts @ (case entry_article fname c e of None \<Rightarrow> [] | Some a \<Rightarrow> [a])"
  by (simp add: fetch_entry_def entry_article_def split: sum.splits option.splits)

lemma fetch_entries_fst:
  "fst (fetch_entries fname c es (arts, w)) = arts @ List.map_filter (entry_article fname c) es"
proof (induction es arbitrary: arts w)
  case Nil
  then show ?case by (simp add: map_filter_simps)
next
  case (Cons e es)
  obtain arts' w' where s: "fetch_entry fname c e (arts, w) = (arts', w')"
    by (cases "fetch_entry fname c e (arts, w)")
  with fetch_entry_fst [of fname c e arts w]
  have "arts' = arts @ (case entry_article fname c e of None \<Rightarrow> [] | Some a \<Rightarrow> [a])"
    by simp
  with Cons.IH [of arts' w'] s show ?case
    by (simp add: map_filter_simps split: option.splits)
qed

lemma fetch_feeds_fst:
  "fst (fetch_feeds E n c fs (arts, w)) =
     arts @ concat (map (\<lambda>f. List.map_filter (entry_article (source_name f) c)
                               (slice_to n (feedparser_parse E (source_url f)))) fs)"
proof (induction fs arbitrary: arts w)
  case Nil
  then show ?case by simp
next
  case (Cons f fs)
  obtain arts' w' where s:
    "fetch_entries (source_name f) c (slice_to n (feedparser_parse E (source_url f)))
       (arts, print (''Fetching '' @ source_name f @ ''...'') w) = (arts', w')"
    by (cases "fetch_entries (source_name f) c (slice_to n (feedparser_parse E (source_url f)))
       (arts, print (''Fetching '' @ source_name f @ ''...'') w)")
  with fetch_entries_fst [of "source_name f" c "slice_to n (feedparser_parse E (source_url f))" arts
      "print (''Fetching '' @ source_name f @ ''...'') w"]
  have "arts' = arts @ List.map_filter (entry_article (source_name f) c)
                        (slice_to n (feedparser_parse E (source_url f)))"
    by simp
  with Cons.IH [of arts' w'] s show ?case
    by simp
qed

lemma cutoff_Inr: "cutoff t days = Inr c \<Longrightarrow> c = t - days * microseconds_per_day"
  by (auto simp: cutoff_def timedelta_days_def datetime_sub_def split: sum.splits if_splits)

lemma fetch_articles_Inr:
  assumes "fetch_articles E feeds limit days w = Inr (arts, w')"
  shows "arts = concat (map (\<lambda>f. List.map_filter
                    (entry_article (source_name f) (now E - days * microseconds_per_day))
                    (slice_to limit (feedparser_parse E (source_url f)))) feeds)"
proof -
  from assms obtain c where c: "cutoff (now E) days = Inr c"
    and r: "fetch_feeds E limit c feeds ([], w) = (arts, w')"
    by (auto simp: fetch_articles_def split: sum.splits)
  from c have "c = now E - days * microseconds_per_day" by (rule cutoff_Inr)
  with fetch_feeds_fst [of E limit c feeds "[]" w] r show ?thesis by simp
qed

lemma set_map_filter: "set (List.map_filter f xs) = {y. \<exists>x \<in> set xs. f x = Some y}"
  by (induction xs) (auto simp: map_filter_simps split: option.splits)

lemma entry_article_Some:
  assumes "entry_article fn c e = Some x"
  shows "published e = Inr (art_date x) \<and> c \<le> art_date x \<and> title e = Some (art_title x) \<and>
         link e = Some (art_url x) \<and> art_feed_name x = fn"
proof (cases "published e")
  case (Inl ex)
  with assms show ?thesis by (simp add: entry_article_def)
next
  case (Inr d)
  show ?thesis
  proof (cases "title e")
    case None
    with assms Inr show ?thesis by (simp add: entry_article_def)
  next
    case (Some t)
    show ?thesis
    proof (cases "link e")
      case None
      with assms Inr Some show ?thesis by (simp add: entry_article_def)
    next
      case (Some l)
      with assms Inr \<open>title e = Some t\<close> show ?thesis
        by (auto simp: entry_article_def split: if_splits)
    qed
  qed
qed

lemma in_fetched_iff:
  assumes "fetch_articles E feeds limit days w = Inr (arts, w')"
  shows "x \<in> set arts \<longleftrightarrow>
           (\<exists>f \<in> set feeds. \<exists>e \<in> set (slice_to limit (feedparser_parse E (source_url f))).
              entry_article (source_name f) (now E - days * microseconds_per_day) e = Some x)"
  unfolding fetch_articles_Inr [OF assms] by (auto simp: set_map_filter)

lemma boundary_fetch:
  "fetch_articles boundary_env sample_feeds 5 1 empty_world =
     Inr ([\<lparr>art_title = ''Edge'', art_url = ''http://example.org/edge'',
             art_feed_name = ''Tech News'', art_date = 63900000000000000 - 86400000000,
             art_content = None, art_authors = None\<rparr>],
          empty_world\<lparr>stdout := [''Fetching Tech News...'']\<rparr>)"
  by (simp add: fetch_articles_def cutoff_def timedelta_days_def datetime_sub_def datetime_max_def
      microseconds_per_day_def boundary_env_def sample_env_def sample_feeds_def fetch_entry_def
      slice_to_def boundary_entry_def print_def empty_world_def)

lemma slice_to_take: "0 \<le> limit \<Longrightarrow> slice_to limit xs = take (nat limit) xs"
  by (simp add: slice_to_def)

text \<open>
  C5. The age filter is inclusive. For an entry among the first \<open>limit\<close>
  entries of a feed, with a parsed date \<open>d\<close>, a title and a link, the article
  made from it is among the fetched articles if and only if \<open>d\<close> is not before
  the cutoff, the current time minus \<open>days\<close> days: an entry exactly at the
  cutoff is kept, an older one is not.
\<close>

theorem age_filter_inclusive:
  assumes "fetch_articles E feeds limit days w = Inr (arts, w')"
    and "f \<in> set feeds"
    and "e \<in> set (slice_to limit (feedparser_parse E (source_url f)))"
    and "published e = Inr d" and "title e = Some t" and "link e = Some l"
  shows "\<lparr>art_title = t, art_url = l, art_feed_name = source_name f, art_date = d,
           art_content = None, art_authors = None\<rparr> \<in> set arts
         \<longleftrightarrow> d \<ge> now E - days * microseconds_per_day"
proof
  assume "\<lparr>art_title = t, art_url = l, art_feed_name = source_name f, art_date = d,
           art_content = None, art_authors = None\<rparr> \<in> set arts"
  then have "\<exists>fn e'. entry_article fn (now E - days * microseconds_per_day) e' =
      Some \<lparr>art_title = t, art_url = l, art_feed_name = source_name f, art_date = d,
           art_content = None, art_authors = None\<rparr>"
    unfolding in_fetched_iff [OF assms(1)] by auto
  then show "d \<ge> now E - days * microseconds_per_day"
    by (auto dest: entry_article_Some)
next
  assume "d \<ge> now E - days * microseconds_per_day"
  with assms(4-6) have "entry_article (source_name f) (now E - days * microseconds_per_day) e =
      Some \<lparr>art_title = t, art_url = l, art_feed_name = source_name f, art_date = d,
           art_content = None, art_authors = None\<rparr>"
    by (simp add: entry_article_def)
  with assms(2,3) show "\<lparr>art_title = t, art_url = l, art_feed_name = source_name f, art_date = d,
           art_content = None, art_authors = None\<rparr> \<in> set arts"
    unfolding in_fetched_iff [OF assms(1)] by auto
qed

text \<open>
  An entry published exactly one day before the current time, with a limit of
  one day.
\<close>

theorem age_filter_inclusive_witness:
  "published boundary_entry = Inr (now boundary_env - 1 * microseconds_per_day) \<and>
   fetch_articles boundary_env sample_feeds 5 1 empty_world =
     Inr ([\<lparr>art_title = ''Edge'', art_url = ''http://example.org/edge'',
             art_feed_name = ''Tech News'', art_date = 63900000000000000 - 86400000000,
             art_content = None, art_authors = None\<rparr>],
          empty_world\<lparr>stdout := [''Fetching Tech News...'']\<rparr>) \<and>
   (\<lparr>art_title = ''Edge'', art_url = ''http://example.org/edge'',
      art_feed_name = ''Tech News'', art_date = 63900000000000000 - 86400000000,
      art_content = None, art_authors = None\<rparr>
      \<in> set [\<lparr>art_title = ''Edge'', art_url = ''http://example.org/edge'',
             art_feed_name = ''Tech News'', art_date = 63900000000000000 - 86400000000,
             art_content = None, art_authors = None\<rparr>]
    \<longleftrightarrow> 63900000000000000 - 86400000000 \<ge> now boundary_env - 1 * microseconds_per_day)"
proof -
  have p: "published boundary_entry = Inr (63900000000000000 - 86400000000)"
    "title boundary_entry = Some ''Edge''" "link boundary_entry = Some ''http://example.org/edge''"
    by (simp_all add: boundary_entry_def)
  have n: "now boundary_env - 1 * microseconds_per_day = 63900000000000000 - 86400000000"
    by (simp add: boundary_env_def sample_env_def microseconds_per_day_def)
  have f: "hd sample_feeds \<in> set sample_feeds" by (simp add: sample_feeds_def)
  have e: "boundary_entry \<in> set (slice_to 5 (feedparser_parse boundary_env (source_url (hd sample_feeds))))"
    by (simp add: boundary_env_def slice_to_def)
  have s: "source_name (hd sample_feeds) = ''Tech News''" by (simp add: sample_feeds_def)
  from age_filter_inclusive [OF boundary_fetch f e p] s p n boundary_fetch
  show ?thesis by simp
qed

text \<open>
  C2, as the specification words it, has an entry whose date cannot be parsed
  kept at the fetch stage, without a date. In the sample feed the first entry
  has no usable date: only the second entry is returned, and the error is
  printed.
\<close>

theorem undated_entry_dropped:
  "published (hd sample_entries) = Inl (TypeError ''not subscriptable'') \<and>
   title (hd sample_entries) = Some ''Down'' \<and>
   fetch_articles sample_env sample_feeds 5 1 empty_world =
     Inr ([\<lparr>art_title = ''Up'', art_url = ''http://example.org/up'',
             art_feed_name = ''Tech News'', art_date = 63900000000000000,
             art_content = None, art_authors = None\<rparr>],
          empty_world\<lparr>stdout := [''Fetching Tech News...'',
                                   ''Error parsing entry: not subscriptable'']\<rparr>)"
  by (simp add: fetch_articles_def cutoff_def timedelta_days_def datetime_sub_def datetime_max_def
      microseconds_per_day_def sample_env_def sample_feeds_def fetch_entry_def
      slice_to_def sample_entries_def print_def empty_world_def error_parsing_entry_def)

text \<open>
  C2, as the code has it. An entry whose publication date cannot be parsed is
  discarded at the fetch stage: the loop body appends nothing for it and prints
  \<^verbatim>\<open>Error parsing entry: \<close> with the message, and the articles fetched from a
  feed are the ones fetched from the feed without that entry.
\<close>

theorem unparsed_date_entry_discarded:
  assumes "published e = Inl ex"
  shows "fetch_entry fname c e (arts, w) = (arts, print (error_parsing_entry ex) w) \<and>
         fst (fetch_entries fname c (before @ e # after) (arts, w)) =
           fst (fetch_entries fname c (before @ after) (arts, w))"
proof -
  from assms have "entry_article fname c e = None"
    by (simp add: entry_article_def)
  then have "List.map_filter (entry_article fname c) (before @ e # after) =
             List.map_filter (entry_article fname c) (before @ after)"
    by (simp add: List.map_filter_def)
  with assms show ?thesis
    by (simp add: fetch_entry_def fetch_entries_fst)
qed

text \<open>
  The first entry of the sample feed.
\<close>

theorem unparsed_date_entry_discarded_witness:
  "published (hd sample_entries) = Inl (TypeError ''not subscriptable'') \<and>
   fetch_entry ''Tech News'' 0 (hd sample_entries) ([], empty_world) =
     ([], empty_world\<lparr>stdout := [''Error parsing entry: not subscriptable'']\<rparr>) \<and>
   fst (fetch_entries ''Tech News'' 0 sample_entries ([], empty_world)) =
     fst (fetch_entries ''Tech News'' 0 (tl sample_entries) ([], empty_world))"
proof -
  have p: "published (hd sample_entries) = Inl (TypeError ''not subscriptable'')"
    by (simp add: sample_entries_def)
  have l: "[] @ hd sample_entries # tl sample_entries = sample_entries" "[] @ tl sample_entries = tl sample_entries"
    by (simp_all add: sample_entries_def)
  from unparsed_date_entry_discarded [OF p, of "''Tech News''" 0 "[]" empty_world "[]" "tl sample_entries"]
  show ?thesis
    unfolding l using p by (simp add: print_def error_parsing_entry_def empty_world_def)
qed

lemma parse_entries_map:
  "parse_entries es acc = Inr r \<Longrightarrow>
     map (\<lambda>(t, l). (Some t, Some l)) r =
       map (\<lambda>(t, l). (Some t, Some l)) acc @ map (\<lambda>e. (title e, link e)) es"
proof (induction es arbitrary: acc)
  case Nil
  then show ?case by simp
next
  case (Cons e es)
  from Cons.prems obtain t l where t: "title e = Some t" and l: "link e = Some l"
    and r: "parse_entries es (acc @ [(t, l)]) = Inr r"
    by (auto split: option.splits)
  from Cons.IH [OF r] t l show ?case by simp
qed

lemma three_parse:
  "parse_rss_feed three_env u =
     Inr [(''One'', ''http://example.org/1''), (''Two'', ''http://example.org/2''),
          (''Three'', ''http://example.org/3'')]"
  by (simp add: parse_rss_feed_def three_env_def three_entries_def)

lemma three_content:
  "with_content sample_get (t, ''http://example.org/1'') = (t, ''Hello<br>World'')"
  "with_content sample_get (t, ''http://example.org/2'') = (t, ''Hello<br>World'')"
  "with_content sample_get (t, ''http://example.org/3'') = (t, ''Hello<br>World'')"
  by (simp_all add: with_content_def extract_article_content_def sample_get_def extract_from_soup_def
      article_page_def soup_find_def or_else_def get_text_def stripped_strings_def py_strip_def
      py_isspace_def replace_def backslash_n_def)

text \<open>
  C6, as the specification words it, has at most \<open>limit\<close> entries returned for
  every limit. \<^verbatim>\<open>--max_articles\<close> is any integer, and for a negative one the
  slice leaves out entries at the end instead: with a limit of -1 and a feed of
  three entries, the PDF script renders two articles and \<^verbatim>\<open>fetch_articles\<close>
  returns two.
\<close>

theorem negative_limit_returns_more:
  "max_articles negative_args = - 1 \<and>
   files (snd (main three_env (Inr negative_args) empty_world)) ''rss_feed.pdf'' =
     Some (Pdf (render_html [(''One'', ''Hello<br>World''), (''Two'', ''Hello<br>World'')])) \<and>
   fetch_articles three_env sample_feeds (- 1) 1 empty_world =
     Inr ([\<lparr>art_title = ''One'', art_url = ''http://example.org/1'',
             art_feed_name = ''Tech News'', art_date = 63900000000000000,
             art_content = None, art_authors = None\<rparr>,
           \<lparr>art_title = ''Two'', art_url = ''http://example.org/2'',
             art_feed_name = ''Tech News'', art_date = 63900000000000000,
             art_content = None, art_authors = None\<rparr>],
          empty_world\<lparr>stdout := [''Fetching Tech News...'']\<rparr>)"
proof -
  have m: "max_articles negative_args = - 1"
    by (simp add: negative_args_def)
  have p: "parse_rss_feed three_env (rss_url negative_args) =
     Inr [(''One'', ''http://example.org/1''), (''Two'', ''http://example.org/2''),
          (''Three'', ''http://example.org/3'')]"
    by (rule three_parse)
  have g: "requests_get three_env = sample_get"
    "output_filename negative_args = ''rss_feed.pdf''"
    "\<And>h q. pdfkit_error three_env h q = None"
    by (simp_all add: three_env_def sample_env_def sample_args_def negative_args_def)
  have n: "\<forall>article \<in> set (slice_to (max_articles negative_args)
              [(''One'', ''http://example.org/1''), (''Two'', ''http://example.org/2''),
               (''Three'', ''http://example.org/3'')]).
             \<not> raises (requests_get three_env) article"
    by (simp add: g sample_no_raise)
  have d: "files (snd (main three_env (Inr negative_args) empty_world)) ''rss_feed.pdf'' =
     Some (Pdf (render_html [(''One'', ''Hello<br>World''), (''Two'', ''Hello<br>World'')]))"
    by (simp add: main_eq [OF p _ n] Let_def send_email_files convert_to_pdf_files g m slice_to_def
        print_def three_content)
  have f: "fetch_articles three_env sample_feeds (- 1) 1 empty_world =
     Inr ([\<lparr>art_title = ''One'', art_url = ''http://example.org/1'',
             art_feed_name = ''Tech News'', art_date = 63900000000000000,
             art_content = None, art_authors = None\<rparr>,
           \<lparr>art_title = ''Two'', art_url = ''http://example.org/2'',
             art_feed_name = ''Tech News'', art_date = 63900000000000000,
             art_content = None, art_authors = None\<rparr>],
          empty_world\<lparr>stdout := [''Fetching Tech News...'']\<rparr>)"
    by (simp add: fetch_articles_def cutoff_def timedelta_days_def datetime_sub_def datetime_max_def
        microseconds_per_day_def three_env_def sample_env_def sample_feeds_def fetch_entry_def
        slice_to_def three_entries_def print_def empty_world_def)
  from m d f show ?thesis by (intro conjI)
qed

text \<open>
  C6, as the code has it. For a limit that is not negative, the entries a
  script takes from a feed are its first \<open>limit\<close> entries, in the order of the
  feed: never more than \<open>limit\<close>, and all of them when the feed has no more
  than \<open>limit\<close>. \<^verbatim>\<open>rss_to_kindle.py\<close> parses one (title, link) pair per entry
  of the feed, in order, and the document \<^verbatim>\<open>main\<close> writes has the sections of
  the first \<open>limit\<close> of them, in order, and no other; \<^verbatim>\<open>fetch_articles\<close>
  returns, feed after feed, the articles of the first \<open>limit\<close> entries of the
  feed that pass its filter, in order, and no other.
\<close>

theorem feed_reader_limit:
  assumes "0 \<le> limit"
  shows "(\<forall>(a::args) parsed.
            max_articles a = limit \<and> parse_rss_feed E (rss_url a) = Inr parsed \<and> parsed \<noteq> [] \<and>
            (\<forall>article \<in> set (take (nat limit) parsed). \<not> raises (requests_get E) article) \<and>
            pdfkit_error E
              (render_html (map (with_content (requests_get E)) (take (nat limit) parsed)))
              (output_filename a) = None \<longrightarrow>
              map (\<lambda>(t, l). (Some t, Some l)) parsed =
                map (\<lambda>e. (title e, link e)) (feedparser_parse E (rss_url a)) \<and>
              files (snd (main E (Inr a) w)) (output_filename a) =
                Some (Pdf (render_html
                  (map (with_content (requests_get E)) (take (nat limit) parsed)))) \<and>
              int (length (take (nat limit) parsed)) \<le> limit \<and>
              (int (length parsed) \<le> limit \<longrightarrow> take (nat limit) parsed = parsed)) \<and>
         (\<forall>arts w'.
            fetch_articles E feeds limit days w0 = Inr (arts, w') \<longrightarrow>
              arts = concat (map (\<lambda>f. List.map_filter
                               (entry_article (source_name f) (now E - days * microseconds_per_day))
                               (take (nat limit) (feedparser_parse E (source_url f)))) feeds))"
proof (intro conjI allI impI)
  fix a :: args and parsed
  assume h: "max_articles a = limit \<and> parse_rss_feed E (rss_url a) = Inr parsed \<and> parsed \<noteq> [] \<and>
            (\<forall>article \<in> set (take (nat limit) parsed). \<not> raises (requests_get E) article) \<and>
            pdfkit_error E
              (render_html (map (with_content (requests_get E)) (take (nat limit) parsed)))
              (output_filename a) = None"
  then have p: "parse_rss_feed E (rss_url a) = Inr parsed" and ne: "parsed \<noteq> []" by simp_all
  from h assms have s: "slice_to (max_articles a) parsed = take (nat limit) parsed"
    by (simp add: slice_to_take)
  from h have n: "\<forall>article \<in> set (slice_to (max_articles a) parsed). \<not> raises (requests_get E) article"
    unfolding s by simp
  from p show "map (\<lambda>(t, l). (Some t, Some l)) parsed =
                map (\<lambda>e. (title e, link e)) (feedparser_parse E (rss_url a))"
    using parse_entries_map [of "feedparser_parse E (rss_url a)" "[]" parsed]
    by (simp add: parse_rss_feed_def)
  from h show "files (snd (main E (Inr a) w)) (output_filename a) =
                Some (Pdf (render_html
                  (map (with_content (requests_get E)) (take (nat limit) parsed))))"
    by (simp add: main_eq [OF p ne n] Let_def send_email_files convert_to_pdf_files print_def
        slice_to_take [OF assms])
  from assms show "int (length (take (nat limit) parsed)) \<le> limit" by simp
  assume "int (length parsed) \<le> limit"
  then show "take (nat limit) parsed = parsed" by simp
next
  fix arts w'
  assume "fetch_articles E feeds limit days w0 = Inr (arts, w')"
  from fetch_articles_Inr [OF this] assms
  show "arts = concat (map (\<lambda>f. List.map_filter
                               (entry_article (source_name f) (now E - days * microseconds_per_day))
                               (take (nat limit) (feedparser_parse E (source_url f)))) feeds)"
    by (simp add: slice_to_take)
qed

text \<open>
  A feed of three entries and a limit of one.
\<close>

theorem feed_reader_limit_witness:
  "(0::int) \<le> 1 \<and>
   max_articles (sample_args\<lparr>max_articles := 1\<rparr>) = 1 \<and>
   files (snd (main three_env (Inr (sample_args\<lparr>max_articles := 1\<rparr>)) empty_world)) ''rss_feed.pdf'' =
     Some (Pdf (render_html [(''One'', ''Hello<br>World'')])) \<and>
   fetch_articles three_env sample_feeds 1 1 empty_world =
     Inr ([\<lparr>art_title = ''One'', art_url = ''http://example.org/1'',
             art_feed_name = ''Tech News'', art_date = 63900000000000000,
             art_content = None, art_authors = None\<rparr>],
          empty_world\<lparr>stdout := [''Fetching Tech News...'']\<rparr>) \<and>
   [\<lparr>art_title = ''One'', art_url = ''http://example.org/1'',
      art_feed_name = ''Tech News'', art_date = 63900000000000000,
      art_content = None, art_authors = None\<rparr>] =
     concat (map (\<lambda>f. List.map_filter
                    (entry_article (source_name f) (now three_env - 1 * microseconds_per_day))
                    (take (nat 1) (feedparser_parse three_env (source_url f)))) sample_feeds)"
proof -
  have z: "(0::int) \<le> 1" by simp
  have m: "max_articles (sample_args\<lparr>max_articles := 1\<rparr>) = 1" by simp
  have p: "parse_rss_feed three_env (rss_url (sample_args\<lparr>max_articles := 1\<rparr>)) =
     Inr [(''One'', ''http://example.org/1''), (''Two'', ''http://example.org/2''),
          (''Three'', ''http://example.org/3'')]"
    by (rule three_parse)
  have ne: "[(''One'', ''http://example.org/1''), (''Two'', ''http://example.org/2''),
          (''Three'', ''http://example.org/3'')] \<noteq> []" by simp
  have g: "requests_get three_env = sample_get"
    "output_filename (sample_args\<lparr>max_articles := 1\<rparr>) = ''rss_feed.pdf''"
    "\<And>h q. pdfkit_error three_env h q = None"
    by (simp_all add: three_env_def sample_env_def sample_args_def)
  have n: "\<forall>article \<in> set (take (nat 1) [(''One'', ''http://example.org/1''), (''Two'', ''http://example.org/2''),
          (''Three'', ''http://example.org/3'')]). \<not> raises (requests_get three_env) article"
    by (simp add: g sample_no_raise)
  have k: "pdfkit_error three_env
              (render_html (map (with_content (requests_get three_env))
                 (take (nat 1) [(''One'', ''http://example.org/1''), (''Two'', ''http://example.org/2''),
                    (''Three'', ''http://example.org/3'')])))
              (output_filename (sample_args\<lparr>max_articles := 1\<rparr>)) = None"
    by (simp add: g)
  have f: "fetch_articles three_env sample_feeds 1 1 empty_world =
     Inr ([\<lparr>art_title = ''One'', art_url = ''http://example.org/1'',
             art_feed_name = ''Tech News'', art_date = 63900000000000000,
             art_content = None, art_authors = None\<rparr>],
          empty_world\<lparr>stdout := [''Fetching Tech News...'']\<rparr>)"
    by (simp add: fetch_articles_def cutoff_def timedelta_days_def datetime_sub_def datetime_max_def
        microseconds_per_day_def three_env_def sample_env_def sample_feeds_def fetch_entry_def
        slice_to_def three_entries_def print_def empty_world_def)
  note t = feed_reader_limit [OF z, of three_env empty_world sample_feeds 1 empty_world]
  note t1 = t [THEN conjunct1, rule_format, OF conjI [OF m conjI [OF p conjI [OF ne conjI [OF n k]]]],
      THEN conjunct2, THEN conjunct1]
  note t2 = t [THEN conjunct2, rule_format, OF f]
  have d: "files (snd (main three_env (Inr (sample_args\<lparr>max_articles := 1\<rparr>)) empty_world)) ''rss_feed.pdf'' =
     Some (Pdf (render_html [(''One'', ''Hello<br>World'')]))"
    using t1 by (simp add: g three_content)
  from z m d f t2 show ?thesis by (intro conjI)
qed

section \<open>\<^verbatim>\<open>create_epub\<close>\<close>

lemma create_chapters_from:
  "ch \<in> set (create_chapters E xs chs) \<Longrightarrow>
     ch \<in> set chs \<or>
     (\<exists>idx a c. (idx, Some a) \<in> set xs \<and> art_content a = Some c \<and> c \<noteq> [] \<and>
                ch = make_chapter E idx a c)"
proof (induction E xs chs rule: create_chapters.induct)
  case (1 E chapters)
  then show ?case by simp
next
  case (2 E idx rest chapters)
  then show ?case by auto
next
  case (3 E idx a rest chapters)
  show ?case
  proof (cases "art_content a")
    case None
    with 3 show ?thesis by (auto simp: truthy_def)
  next
    case (Some c)
    show ?thesis
    proof (cases "c = []")
      case True
      with 3 Some show ?thesis by (auto simp: truthy_def)
    next
      case False
      with 3 Some show ?thesis by (fastforce simp: truthy_def)
    qed
  qed
qed

lemma create_chapters_length:
  "length (create_chapters E xs chs) = length chs + length (filter has_content (map snd xs))"
  by (induction E xs chs rule: create_chapters.induct)
     (auto simp: has_content_def truthy_def split: option.splits)

lemma map_snd_enumerate: "map snd (enumerate n xs) = xs"
  by (simp add: enumerate_eq_zip)

lemma in_enumerate0: "(i, x) \<in> set (enumerate 0 xs) \<Longrightarrow> i < length xs \<and> xs ! i = x"
  by (simp add: in_set_enumerate_eq)

lemma sample_toc:
  "toc (make_book sample_env sample_articles) =
     [make_chapter sample_env 1
        (sample_article\<lparr>art_content := Some ''Text'', art_authors := Some []\<rparr>) ''Text'']"
  by (simp add: make_book_def Let_def sample_articles_def sample_article_def truthy_def)

text \<open>
  C9. Every section of the book \<^verbatim>\<open>create_epub\<close> writes is the chapter of
  an article of the input list that has non-empty content, and there are as
  many sections as there are such articles: an article whose content is empty
  or absent, and a \<open>None\<close> in the list, give no section. The table of
  contents, the items and the spine of the book hold the same chapters.
\<close>

theorem sections_have_content:
  "(\<forall>ch \<in> set (toc (make_book E articles)).
      \<exists>idx a c. idx < length articles \<and> articles ! idx = Some a \<and>
                art_content a = Some c \<and> c \<noteq> [] \<and> ch = make_chapter E idx a c) \<and>
   length (toc (make_book E articles)) = length (filter has_content articles) \<and>
   items (make_book E articles) = map Inr (toc (make_book E articles)) @ [Inl ''EpubNcx'', Inl ''EpubNav''] \<and>
   spine (make_book E articles) = Inl ''nav'' # map Inr (toc (make_book E articles)) \<and>
   (write_epub_error E output_file = None \<longrightarrow>
      files (snd (create_epub E articles output_file w)) output_file =
        Some (Epub (make_book E articles)))"
proof -
  have t: "toc (make_book E articles) = create_chapters E (enumerate 0 articles) []"
    by (simp add: make_book_def Let_def)
  have "\<forall>ch \<in> set (toc (make_book E articles)).
      \<exists>idx a c. idx < length articles \<and> articles ! idx = Some a \<and>
                art_content a = Some c \<and> c \<noteq> [] \<and> ch = make_chapter E idx a c"
  proof
    fix ch
    assume "ch \<in> set (toc (make_book E articles))"
    then have "ch \<in> set (create_chapters E (enumerate 0 articles) [])" by (simp add: t)
    from create_chapters_from [OF this]
    obtain idx a c where m: "(idx, Some a) \<in> set (enumerate 0 articles)"
      and k: "art_content a = Some c" "c \<noteq> []" "ch = make_chapter E idx a c"
      by auto
    from m have "idx < length articles \<and> articles ! idx = Some a"
      by (rule in_enumerate0)
    with k show "\<exists>idx a c. idx < length articles \<and> articles ! idx = Some a \<and>
                art_content a = Some c \<and> c \<noteq> [] \<and> ch = make_chapter E idx a c"
      by blast
  qed
  moreover have "length (toc (make_book E articles)) = length (filter has_content articles)"
    by (simp add: t create_chapters_length map_snd_enumerate)
  moreover have "items (make_book E articles) =
      map Inr (toc (make_book E articles)) @ [Inl ''EpubNcx'', Inl ''EpubNav'']"
    "spine (make_book E articles) = Inl ''nav'' # map Inr (toc (make_book E articles))"
    by (simp_all add: make_book_def Let_def)
  moreover have "write_epub_error E output_file = None \<longrightarrow>
      files (snd (create_epub E articles output_file w)) output_file =
        Some (Epub (make_book E articles))"
    by (simp add: create_epub_def print_def)
  ultimately show ?thesis by simp
qed

text \<open>
  Four elements: empty content, content, \<open>None\<close>, no content. The book has
  one chapter, that of the second.
\<close>

theorem sections_have_content_witness:
  "toc (make_book sample_env sample_articles) =
     [make_chapter sample_env 1
        (sample_article\<lparr>art_content := Some ''Text'', art_authors := Some []\<rparr>) ''Text''] \<and>
   length (filter has_content sample_articles) = 1 \<and>
   (\<exists>idx a c. idx < length sample_articles \<and> sample_articles ! idx = Some a \<and>
      art_content a = Some c \<and> c \<noteq> [] \<and>
      make_chapter sample_env 1
        (sample_article\<lparr>art_content := Some ''Text'', art_authors := Some []\<rparr>) ''Text'' =
      make_chapter sample_env idx a c) \<and>
   files (snd (create_epub sample_env sample_articles ''digest.epub'' empty_world)) ''digest.epub'' =
     Some (Epub (make_book sample_env sample_articles))"
proof -
  have w: "write_epub_error sample_env ''digest.epub'' = None"
    by (simp add: sample_env_def)
  note t = sections_have_content [of sample_env sample_articles "''digest.epub''" empty_world]
  from t have a: "\<forall>ch \<in> set (toc (make_book sample_env sample_articles)).
      \<exists>idx a c. idx < length sample_articles \<and> sample_articles ! idx = Some a \<and>
                art_content a = Some c \<and> c \<noteq> [] \<and> ch = make_chapter sample_env idx a c"
    by (rule conjunct1)
  from t have b: "length (toc (make_book sample_env sample_articles)) =
      length (filter has_content sample_articles)"
    by (elim conjE)
  from t w have c: "files (snd (create_epub sample_env sample_articles ''digest.epub'' empty_world)) ''digest.epub'' =
     Some (Epub (make_book sample_env sample_articles))"
    by (elim conjE) (rule mp)
  from a have a': "\<exists>idx a c. idx < length sample_articles \<and> sample_articles ! idx = Some a \<and>
      art_content a = Some c \<and> c \<noteq> [] \<and>
      make_chapter sample_env 1
        (sample_article\<lparr>art_content := Some ''Text'', art_authors := Some []\<rparr>) ''Text'' =
      make_chapter sample_env idx a c"
    unfolding sample_toc by simp
  from b have b': "length (filter has_content sample_articles) = 1"
    unfolding sample_toc by simp
  from sample_toc a' b' c show ?thesis by (intro conjI)
qed

section \<open>Exit status\<close>

lemma send_to_kindle_result:
  "fst (send_to_kindle E path cfg w) =
     (case files w path of None \<Rightarrow> Some (FileNotFoundError path) | Some doc \<Rightarrow> None)"
  by (simp add: send_to_kindle_def Let_def split: option.splits)

lemma send_to_kindle_files: "files (snd (send_to_kindle E path cfg w)) = files w"
  by (simp add: send_to_kindle_def print_def Let_def split: option.splits)










end
